theory Spec2Isabelle
  imports Main "HOL-Library.Word" "HOL-Library.Monad_Syntax"
begin

unbundle bit_operations_syntax

section \<open>SCMI clock management protocol: wire encoding of rates\<close>

text \<open>
  A rate is a \<^verbatim>\<open>uint64_t\<close>. On the wire it travels as two \<^verbatim>\<open>uint32_t\<close> words,
  \<^verbatim>\<open>rate[0]\<close> the low one and \<^verbatim>\<open>rate[1]\<close> the high one.

  \<^verbatim>\<open>get_rate_respond\<close> (and the describe-rates handler, and the rate-set handler when it
  fills \<^verbatim>\<open>event_set_rate_request_data\<close>) split a rate with
  \<^verbatim>\<open>(uint32_t)rate\<close> and \<^verbatim>\<open>(uint32_t)(rate >> 32)\<close>.
\<close>

definition rate_low :: "64 word \<Rightarrow> 32 word" where
  "rate_low rate = ucast rate"

definition rate_high :: "64 word \<Rightarrow> 32 word" where
  "rate_high rate = ucast (drop_bit 32 rate)"

text \<open>
  \<^verbatim>\<open>scmi_clock_rate_set_handler\<close> rebuilds the rate with
  \<^verbatim>\<open>((uint64_t)(rate[1]) << 32) | (uint64_t)rate[0]\<close>.
\<close>

definition rate_of_words_or :: "32 word \<Rightarrow> 32 word \<Rightarrow> 64 word" where
  "rate_of_words_or lo hi = push_bit 32 (ucast hi :: 64 word) OR (ucast lo :: 64 word)"

text \<open>
  \<^verbatim>\<open>process_request_event\<close> rebuilds it with
  \<^verbatim>\<open>(uint64_t)rate[0] + (((uint64_t)rate[1]) << 32)\<close>.
\<close>

definition rate_of_words_add :: "32 word \<Rightarrow> 32 word \<Rightarrow> 64 word" where
  "rate_of_words_add lo hi = (ucast lo :: 64 word) + push_bit 32 (ucast hi :: 64 word)"

section \<open>Framework and protocol constants\<close>

text \<open>
  Framework status codes (\<^verbatim>\<open>fwk_status.h\<close>). The module only compares them for equality,
  so they are an enumeration here.
\<close>

datatype fwk_status =
    FWK_SUCCESS | FWK_PENDING
  | FWK_E_PARAM | FWK_E_SIZE | FWK_E_ACCESS | FWK_E_RANGE | FWK_E_TIMEOUT | FWK_E_NOMEM
  | FWK_E_SUPPORT | FWK_E_DEVICE | FWK_E_BUSY | FWK_E_STATE | FWK_E_PANIC

text \<open>Status codes an agent sees in the first word of a response.\<close>

datatype scmi_status =
    SCMI_SUCCESS | SCMI_NOT_SUPPORTED | SCMI_INVALID_PARAMETERS | SCMI_DENIED
  | SCMI_NOT_FOUND | SCMI_OUT_OF_RANGE | SCMI_BUSY | SCMI_COMMS_ERROR
  | SCMI_GENERIC_ERROR | SCMI_HARDWARE_ERROR | SCMI_PROTOCOL_ERROR

datatype mod_clock_state =
  MOD_CLOCK_STATE_STOPPED | MOD_CLOCK_STATE_RUNNING | MOD_CLOCK_STATE_COUNT

text \<open>
  The policy keeps clock states in tables of \<^verbatim>\<open>uint8_t\<close>; an enumerator is stored as its
  ordinal, and a table fresh from \<^verbatim>\<open>fwk_mm_calloc\<close> holds zeros, the ordinal of
  \<^verbatim>\<open>MOD_CLOCK_STATE_STOPPED\<close>.
\<close>

fun state_u8 :: "mod_clock_state \<Rightarrow> 8 word" where
  "state_u8 MOD_CLOCK_STATE_STOPPED = 0"
| "state_u8 MOD_CLOCK_STATE_RUNNING = 1"
| "state_u8 MOD_CLOCK_STATE_COUNT = 2"

datatype mod_clock_round_mode =
    MOD_CLOCK_ROUND_MODE_NONE | MOD_CLOCK_ROUND_MODE_NEAREST
  | MOD_CLOCK_ROUND_MODE_DOWN | MOD_CLOCK_ROUND_MODE_UP

datatype mod_clock_rate_type =
  MOD_CLOCK_RATE_TYPE_DISCRETE | MOD_CLOCK_RATE_TYPE_CONTINUOUS

datatype scmi_clock_request_type =
    SCMI_CLOCK_REQUEST_GET_STATE | SCMI_CLOCK_REQUEST_GET_RATE
  | SCMI_CLOCK_REQUEST_SET_RATE | SCMI_CLOCK_REQUEST_SET_STATE
  | SCMI_CLOCK_REQUEST_COUNT

datatype scmi_clock_event_idx =
    SCMI_CLOCK_EVENT_IDX_GET_STATE | SCMI_CLOCK_EVENT_IDX_GET_RATE
  | SCMI_CLOCK_EVENT_IDX_SET_RATE | SCMI_CLOCK_EVENT_IDX_SET_STATE
  | SCMI_CLOCK_EVENT_IDX_COUNT

datatype mod_clock_event_idx =
    MOD_CLOCK_EVENT_IDX_SET_RATE_REQUEST | MOD_CLOCK_EVENT_IDX_GET_RATE_REQUEST
  | MOD_CLOCK_EVENT_IDX_SET_STATE_REQUEST | MOD_CLOCK_EVENT_IDX_GET_STATE_REQUEST
  | MOD_CLOCK_EVENT_IDX_COUNT

datatype mod_scmi_clock_policy_status =
  MOD_SCMI_CLOCK_SKIP_MESSAGE_HANDLER | MOD_SCMI_CLOCK_EXECUTE_MESSAGE_HANDLER

datatype mod_scmi_clock_policy_commit =
  MOD_SCMI_CLOCK_PRE_MESSAGE_HANDLER | MOD_SCMI_CLOCK_POST_MESSAGE_HANDLER

text \<open>
  Framework identifiers. \<^verbatim>\<open>FWK_ID_NONE\<close> marks a free operation slot; a service and a
  clock device are elements of their modules. The module takes the element index of clock
  device identifiers only.
\<close>

datatype fwk_id = FWK_ID_NONE | FWK_ID_MODULE nat | FWK_ID_ELEMENT nat nat

fun fwk_id_get_element_idx :: "fwk_id \<Rightarrow> nat" where
  "fwk_id_get_element_idx (FWK_ID_ELEMENT m e) = e"
| "fwk_id_get_element_idx _ = 0"

section \<open>Configuration\<close>

record mod_scmi_clock_device =
  element_id :: fwk_id
  starts_enabled :: bool

text \<open>
  An agent's \<^verbatim>\<open>device_table\<close> and the module's \<^verbatim>\<open>agent_table\<close> are C arrays that carry
  their lengths in \<^verbatim>\<open>device_count\<close> and \<^verbatim>\<open>agent_count\<close>; here the counts are the lengths
  of the lists.
\<close>

record mod_scmi_clock_agent =
  device_table :: "mod_scmi_clock_device list"

definition device_count :: "mod_scmi_clock_agent \<Rightarrow> nat" where
  "device_count agent = length (device_table agent)"

record mod_scmi_clock_config =
  max_pending_transactions :: "8 word"
  agent_table :: "mod_scmi_clock_agent list"

definition agent_count :: "mod_scmi_clock_config \<Rightarrow> nat" where
  "agent_count cfg = length (agent_table cfg)"

text \<open>
  What is fixed once \<^verbatim>\<open>scmi_clock_init\<close> has run: the configuration and the number of
  clock devices, together with what the build fixes and \<^verbatim>\<open>internal/scmi_clock.h\<close> declares
  (that header is not part of the sources at hand, so its bit masks and constants are
  fields here): whether \<^verbatim>\<open>BUILD_HAS_MOD_RESOURCE_PERMS\<close> is defined, the three flag masks
  of ClockRateSet, the enable mask of ClockConfigSet, the protocol version and the size
  of the clock name field.
\<close>

record scmi_clock_setup =
  config :: mod_scmi_clock_config
  clock_devices :: nat
  build_has_mod_resource_perms :: bool
  SCMI_CLOCK_RATE_SET_ROUND_UP_MASK :: "32 word"
  SCMI_CLOCK_RATE_SET_ROUND_AUTO_MASK :: "32 word"
  SCMI_CLOCK_RATE_SET_ASYNC_MASK :: "32 word"
  SCMI_CLOCK_CONFIG_SET_ENABLE_MASK :: "32 word"
  SCMI_PROTOCOL_VERSION_CLOCK :: "32 word"
  SCMI_CLOCK_NAME_LENGTH_MAX :: nat

text \<open>
  Modelled from the spec: \<^verbatim>\<open>SCMI_CLOCK_RATE_SET_FLAGS_MASK\<close> is declared in
  \<^verbatim>\<open>internal/scmi_clock.h\<close>. The flags of ClockRateSet are round-up, round-auto and
  asynchronous; any other bit is unknown.
\<close>

definition SCMI_CLOCK_RATE_SET_FLAGS_MASK :: "scmi_clock_setup \<Rightarrow> 32 word" where
  "SCMI_CLOCK_RATE_SET_FLAGS_MASK cf =
     SCMI_CLOCK_RATE_SET_ROUND_UP_MASK cf OR SCMI_CLOCK_RATE_SET_ROUND_AUTO_MASK cf
       OR SCMI_CLOCK_RATE_SET_ASYNC_MASK cf"

section \<open>External collaborators\<close>

record mod_clock_range =
  rate_type :: mod_clock_rate_type
  range_min :: "64 word"
  range_max :: "64 word"
  range_step :: "64 word"
  rate_count :: nat

text \<open>
  The transport (\<^verbatim>\<open>scmi_api\<close>), the event queue of the framework, the clock HAL
  (\<^verbatim>\<open>clock_api\<close>) and the resource permissions module are outside this module. Each call
  the module makes is a field: what the collaborator answers, as a function of the
  arguments it is given. A fallible call with an out-parameter answers a pair of the
  status and the value written.
\<close>

datatype event_request_data =
    No_Request_Data
  | Set_Rate_Request_Data "32 word" "32 word" mod_clock_round_mode
  | Set_State_Request_Data mod_clock_state

record event_request =
  event_id :: scmi_clock_event_idx
  params_clock_dev_id :: fwk_id
  params_request_data :: event_request_data

record scmi_clock_env =
  get_agent_id :: "fwk_id \<Rightarrow> fwk_status \<times> nat"
  get_max_payload_size :: "fwk_id \<Rightarrow> fwk_status \<times> nat"
  write_payload :: "fwk_id \<Rightarrow> nat \<Rightarrow> nat \<Rightarrow> fwk_status"
  fwk_thread_put_event :: "event_request \<Rightarrow> fwk_status"
  fwk_module_get_name :: "fwk_id \<Rightarrow> string"
  get_state :: "fwk_id \<Rightarrow> fwk_status \<times> mod_clock_state"
  get_rate :: "fwk_id \<Rightarrow> fwk_status \<times> 64 word"
  set_rate :: "fwk_id \<Rightarrow> 64 word \<Rightarrow> mod_clock_round_mode \<Rightarrow> fwk_status"
  set_state :: "fwk_id \<Rightarrow> mod_clock_state \<Rightarrow> fwk_status"
  get_info :: "fwk_id \<Rightarrow> fwk_status \<times> mod_clock_range"
  get_rate_from_index :: "fwk_id \<Rightarrow> nat \<Rightarrow> fwk_status \<times> 64 word"
  agent_has_protocol_permission :: "nat \<Rightarrow> bool"
  agent_has_resource_permission :: "nat \<Rightarrow> nat \<Rightarrow> 32 word \<Rightarrow> bool"

section \<open>Module state\<close>

record clock_operations =
  service_id :: fwk_id
  state :: mod_clock_state
  clock_dev_id :: "32 word"
  request :: scmi_clock_request_type

text \<open>
  The two tables of the default state-set policy are function-local statics, \<^verbatim>\<open>NULL\<close>
  until the first call allocates them: \<^verbatim>\<open>agent_clock_state\<close> has
  \<^verbatim>\<open>agent_count * clock_devices\<close> bytes, \<^verbatim>\<open>clock_count\<close> is a \<^verbatim>\<open>uint8_t\<close> pointer to
  \<^verbatim>\<open>clock_devices * sizeof(uint32_t)\<close> bytes.
\<close>

record policy_tables =
  agent_clock_state :: "8 word list"
  clock_count :: "8 word list"

text \<open>
  What the module sends: the payload handed to \<^verbatim>\<open>respond\<close>, cut to the size handed with
  it, and each block handed to \<^verbatim>\<open>write_payload\<close>. Where a word is packed by a macro of the
  missing header, the arguments of the macro are kept.
\<close>

datatype scmi_rate_format = SCMI_CLOCK_RATE_FORMAT_LIST | SCMI_CLOCK_RATE_FORMAT_RANGE

datatype response =
    Status_Only scmi_status
  | Protocol_Version_P2A scmi_status "32 word"
  | Protocol_Attributes_P2A scmi_status "(8 word \<times> nat) option"
  | Message_Attributes_P2A scmi_status "32 word"
  | Clock_Attributes_P2A scmi_status bool string
  | Rate_Get_P2A scmi_status "32 word" "32 word"
  | Written_Payload nat

datatype payload_block =
    Rate_Entry "32 word" "32 word"
  | Rate_Range "(32 word \<times> 32 word) list"
  | Describe_Rates_Header scmi_status nat scmi_rate_format nat

record scmi_clock_ctx =
  clock_ops :: "clock_operations list"
  tables :: "policy_tables option"
  event_queue :: "event_request list"
  responses :: "(fwk_id \<times> response) list"
  payload_writes :: "(fwk_id \<times> nat \<times> payload_block) list"

definition respond :: "fwk_id \<Rightarrow> response \<Rightarrow> scmi_clock_ctx \<Rightarrow> scmi_clock_ctx" where
  "respond service r s = s\<lparr>responses := responses s @ [(service, r)]\<rparr>"

text \<open>
  \<^verbatim>\<open>scmi_clock_init\<close>: one operation slot per clock device, zeroed by the allocator and
  then marked free.
\<close>

definition scmi_clock_init :: "nat \<Rightarrow> scmi_clock_ctx" where
  "scmi_clock_init n =
     \<lparr>clock_ops = replicate n
        \<lparr>service_id = FWK_ID_NONE, state = MOD_CLOCK_STATE_STOPPED, clock_dev_id = 0,
         request = SCMI_CLOCK_REQUEST_GET_STATE\<rparr>,
      tables = None, event_queue = [], responses = [], payload_writes = []\<rparr>"

section \<open>Array accesses\<close>

text \<open>
  The module indexes its tables with values it does not range-check. An access outside
  the allocated table is undefined behaviour in C; the model makes it the result \<open>None\<close>,
  and every operation that may touch a table returns an option.
\<close>

definition table_read :: "'a list \<Rightarrow> nat \<Rightarrow> 'a option" where
  "table_read xs i = (if i < length xs then Some (xs ! i) else None)"

definition table_write :: "'a list \<Rightarrow> nat \<Rightarrow> 'a \<Rightarrow> 'a list option" where
  "table_write xs i v = (if i < length xs then Some (xs[i := v]) else None)"

section \<open>Device registry lookups\<close>

text \<open>
  Both lookups return the framework status as the error (\<open>Inl\<close>) and the entry found
  otherwise. Their callers never pass a null out-pointer, so the \<^verbatim>\<open>NULL\<close> checks have no
  counterpart.
\<close>

definition get_agent_entry ::
  "scmi_clock_setup \<Rightarrow> scmi_clock_env \<Rightarrow> fwk_id \<Rightarrow> fwk_status + mod_scmi_clock_agent" where
  "get_agent_entry cf env service =
     (case get_agent_id env service of
        (status, agent_id) \<Rightarrow>
          if status \<noteq> FWK_SUCCESS then Inl status
          else if agent_id \<ge> agent_count (config cf) then Inl FWK_E_PARAM
          else Inr (agent_table (config cf) ! agent_id))"

definition get_clock_device_entry ::
  "scmi_clock_setup \<Rightarrow> scmi_clock_env \<Rightarrow> fwk_id \<Rightarrow> nat
     \<Rightarrow> fwk_status + (mod_scmi_clock_device \<times> mod_scmi_clock_agent)" where
  "get_clock_device_entry cf env service clock_idx =
     (case get_agent_entry cf env service of
        Inl status \<Rightarrow> Inl status
      | Inr agent_entry \<Rightarrow>
          if clock_idx \<ge> device_count agent_entry then Inl FWK_E_RANGE
          else Inr (device_table agent_entry ! clock_idx, agent_entry))"

definition get_agent_clock_state ::
  "scmi_clock_setup \<Rightarrow> scmi_clock_env \<Rightarrow> fwk_id \<Rightarrow> nat \<Rightarrow> 8 word list
     \<Rightarrow> (fwk_status + 8 word) option" where
  "get_agent_clock_state cf env service clock_idx tbl =
     (case get_agent_entry cf env service of
        Inl status \<Rightarrow> Some (Inl status)
      | Inr agent_entry \<Rightarrow>
          if clock_idx \<ge> device_count agent_entry then Some (Inl FWK_E_RANGE)
          else (case get_agent_id env service of
                  (status, agent_id) \<Rightarrow>
                    if status \<noteq> FWK_SUCCESS then Some (Inl status)
                    else map_option Inr
                           (table_read tbl (agent_id * clock_devices cf + clock_idx))))"

text \<open>The table comes back with the status: unchanged when the status is an error.\<close>

definition set_agent_clock_state ::
  "scmi_clock_setup \<Rightarrow> scmi_clock_env \<Rightarrow> 8 word list \<Rightarrow> 8 word \<Rightarrow> fwk_id \<Rightarrow> nat
     \<Rightarrow> (fwk_status \<times> 8 word list) option" where
  "set_agent_clock_state cf env tbl st service clock_idx =
     (case get_agent_entry cf env service of
        Inl status \<Rightarrow> Some (status, tbl)
      | Inr agent_entry \<Rightarrow>
          if clock_idx \<ge> device_count agent_entry then Some (FWK_E_RANGE, tbl)
          else (case get_agent_id env service of
                  (status, agent_id) \<Rightarrow>
                    if status \<noteq> FWK_SUCCESS then Some (status, tbl)
                    else map_option (Pair FWK_SUCCESS)
                           (table_write tbl (agent_id * clock_devices cf + clock_idx) st)))"

section \<open>Request tracker\<close>

definition clock_ops_set_busy ::
  "nat \<Rightarrow> fwk_id \<Rightarrow> 32 word \<Rightarrow> mod_clock_state \<Rightarrow> scmi_clock_request_type
     \<Rightarrow> scmi_clock_ctx \<Rightarrow> scmi_clock_ctx option" where
  "clock_ops_set_busy clock_dev_idx service dev_id st req s =
     map_option (\<lambda>ops. s\<lparr>clock_ops := ops\<rparr>)
       (table_write (clock_ops s) clock_dev_idx
          \<lparr>service_id = service, state = st, clock_dev_id = dev_id, request = req\<rparr>)"

definition clock_ops_set_available :: "nat \<Rightarrow> scmi_clock_ctx \<Rightarrow> scmi_clock_ctx option" where
  "clock_ops_set_available clock_dev_idx s =
     do {
       ops \<leftarrow> table_read (clock_ops s) clock_dev_idx;
       Some (s\<lparr>clock_ops := (clock_ops s)[clock_dev_idx := ops\<lparr>service_id := FWK_ID_NONE\<rparr>]\<rparr>)
     }"

definition clock_ops_get_service :: "nat \<Rightarrow> scmi_clock_ctx \<Rightarrow> fwk_id option" where
  "clock_ops_get_service clock_dev_idx s =
     map_option service_id (table_read (clock_ops s) clock_dev_idx)"

definition clock_ops_is_available :: "nat \<Rightarrow> scmi_clock_ctx \<Rightarrow> bool option" where
  "clock_ops_is_available clock_dev_idx s =
     map_option (\<lambda>ops. service_id ops = FWK_ID_NONE) (table_read (clock_ops s) clock_dev_idx)"

section \<open>Default policies\<close>

text \<open>
  The default rate-set policy changes neither the rate nor the rounding mode and lets the
  handler go on.
\<close>

definition mod_scmi_clock_rate_set_policy ::
  "mod_clock_round_mode \<Rightarrow> 64 word \<Rightarrow> mod_scmi_clock_policy_commit \<Rightarrow> fwk_id \<Rightarrow> 32 word
     \<Rightarrow> fwk_status \<times> mod_scmi_clock_policy_status \<times> mod_clock_round_mode \<times> 64 word" where
  "mod_scmi_clock_rate_set_policy round_mode rate policy_commit service dev_id =
     (FWK_SUCCESS, MOD_SCMI_CLOCK_EXECUTE_MESSAGE_HANDLER, round_mode, rate)"

text \<open>
  First use of the state-set policy: both tables are allocated zeroed, then every
  (agent, clock index) whose device starts enabled is marked running and the count at
  that clock index is incremented. The two loops run over the agent table and over each
  agent's device table, with the running indices \<open>agent_id\<close> and \<open>clock_id\<close>.
\<close>

fun seed_devices ::
  "nat \<Rightarrow> nat \<Rightarrow> nat \<Rightarrow> mod_scmi_clock_device list \<Rightarrow> policy_tables \<Rightarrow> policy_tables option" where
  "seed_devices n agent_id clock_id [] t = Some t"
| "seed_devices n agent_id clock_id (d # ds) t =
     (if starts_enabled d then
        do {
          acs \<leftarrow> table_write (agent_clock_state t) (agent_id * n + clock_id)
                   (state_u8 MOD_CLOCK_STATE_RUNNING);
          c \<leftarrow> table_read (clock_count t) clock_id;
          cc \<leftarrow> table_write (clock_count t) clock_id (c + 1);
          seed_devices n agent_id (Suc clock_id) ds \<lparr>agent_clock_state = acs, clock_count = cc\<rparr>
        }
      else seed_devices n agent_id (Suc clock_id) ds t)"

fun seed_agents ::
  "nat \<Rightarrow> nat \<Rightarrow> mod_scmi_clock_agent list \<Rightarrow> policy_tables \<Rightarrow> policy_tables option" where
  "seed_agents n agent_id [] t = Some t"
| "seed_agents n agent_id (a # as) t =
     do {
       t' \<leftarrow> seed_devices n agent_id 0 (device_table a) t;
       seed_agents n (Suc agent_id) as t'
     }"

definition policy_tables_init :: "scmi_clock_setup \<Rightarrow> policy_tables option" where
  "policy_tables_init cf =
     seed_agents (clock_devices cf) 0 (agent_table (config cf))
       \<lparr>agent_clock_state = replicate (agent_count (config cf) * clock_devices cf) 0,
        clock_count = replicate (clock_devices cf * 4) 0\<rparr>"

text \<open>The tables a call of the policy works on: the existing ones, or freshly seeded.\<close>

definition policy_tables_of :: "scmi_clock_setup \<Rightarrow> scmi_clock_ctx \<Rightarrow> policy_tables option" where
  "policy_tables_of cf s = (case tables s of None \<Rightarrow> policy_tables_init cf | Some t \<Rightarrow> Some t)"

text \<open>
  The default state-set policy. It returns the status and the \<^verbatim>\<open>policy_status\<close> it wrote;
  it never writes \<^verbatim>\<open>*state\<close>. As in the source, \<^verbatim>\<open>clock_dev_id\<close> indexes both the agent's
  device table (inside the two state accessors) and \<^verbatim>\<open>clock_count\<close>.
\<close>

definition mod_scmi_clock_config_set_policy ::
  "scmi_clock_setup \<Rightarrow> scmi_clock_env \<Rightarrow> mod_clock_state \<Rightarrow> mod_scmi_clock_policy_commit
     \<Rightarrow> fwk_id \<Rightarrow> 32 word \<Rightarrow> scmi_clock_ctx
     \<Rightarrow> ((fwk_status \<times> mod_scmi_clock_policy_status) \<times> scmi_clock_ctx) option" where
  "mod_scmi_clock_config_set_policy cf env st policy_commit service dev_id s =
     do {
       t \<leftarrow> policy_tables_of cf s;
       r \<leftarrow> get_agent_clock_state cf env service (unat dev_id) (agent_clock_state t);
       (case r of
          Inl status \<Rightarrow>
            Some ((status, MOD_SCMI_CLOCK_SKIP_MESSAGE_HANDLER), s\<lparr>tables := Some t\<rparr>)
        | Inr clock_state \<Rightarrow>
            (case st of
               MOD_CLOCK_STATE_RUNNING \<Rightarrow>
                 if clock_state = state_u8 MOD_CLOCK_STATE_RUNNING
                 then Some ((FWK_SUCCESS, MOD_SCMI_CLOCK_SKIP_MESSAGE_HANDLER),
                            s\<lparr>tables := Some t\<rparr>)
                 else do {
                   acs \<leftarrow> (if policy_commit = MOD_SCMI_CLOCK_POST_MESSAGE_HANDLER
                           then map_option snd
                                  (set_agent_clock_state cf env (agent_clock_state t)
                                     (state_u8 MOD_CLOCK_STATE_RUNNING) service (unat dev_id))
                           else Some (agent_clock_state t));
                   c \<leftarrow> table_read (clock_count t) (unat dev_id);
                   let status = (if c \<noteq> 0 then FWK_E_STATE else FWK_SUCCESS);
                   cc \<leftarrow> (if policy_commit = MOD_SCMI_CLOCK_POST_MESSAGE_HANDLER
                          then table_write (clock_count t) (unat dev_id) (c + 1)
                          else Some (clock_count t));
                   Some ((FWK_SUCCESS,
                          if status = FWK_SUCCESS then MOD_SCMI_CLOCK_EXECUTE_MESSAGE_HANDLER
                          else MOD_SCMI_CLOCK_SKIP_MESSAGE_HANDLER),
                         s\<lparr>tables := Some \<lparr>agent_clock_state = acs, clock_count = cc\<rparr>\<rparr>)
                 }
             | MOD_CLOCK_STATE_STOPPED \<Rightarrow>
                 if clock_state = state_u8 MOD_CLOCK_STATE_STOPPED
                 then Some ((FWK_SUCCESS, MOD_SCMI_CLOCK_SKIP_MESSAGE_HANDLER),
                            s\<lparr>tables := Some t\<rparr>)
                 else do {
                   c \<leftarrow> table_read (clock_count t) (unat dev_id);
                   if c = 0
                   then Some ((FWK_E_STATE, MOD_SCMI_CLOCK_SKIP_MESSAGE_HANDLER),
                              s\<lparr>tables := Some t\<rparr>)
                   else do {
                     acs \<leftarrow> (if policy_commit = MOD_SCMI_CLOCK_POST_MESSAGE_HANDLER
                             then map_option snd
                                    (set_agent_clock_state cf env (agent_clock_state t)
                                       (state_u8 MOD_CLOCK_STATE_STOPPED) service (unat dev_id))
                             else Some (agent_clock_state t));
                     let status = (if c \<noteq> 1 then FWK_E_STATE else FWK_SUCCESS);
                     cc \<leftarrow> (if policy_commit = MOD_SCMI_CLOCK_POST_MESSAGE_HANDLER
                            then table_write (clock_count t) (unat dev_id) (c - 1)
                            else Some (clock_count t));
                     Some ((FWK_SUCCESS,
                            if status = FWK_SUCCESS then MOD_SCMI_CLOCK_EXECUTE_MESSAGE_HANDLER
                            else MOD_SCMI_CLOCK_SKIP_MESSAGE_HANDLER),
                           s\<lparr>tables := Some \<lparr>agent_clock_state = acs, clock_count = cc\<rparr>\<rparr>)
                   }
                 }
             | MOD_CLOCK_STATE_COUNT \<Rightarrow>
                 Some ((FWK_E_PARAM, MOD_SCMI_CLOCK_SKIP_MESSAGE_HANDLER),
                       s\<lparr>tables := Some t\<rparr>)))
     }"

text \<open>
  After a state-set request completed with success the policy runs once more, in its
  post phase, on what the slot recorded; its results are dropped.
\<close>

definition clock_ops_update_state ::
  "scmi_clock_setup \<Rightarrow> scmi_clock_env \<Rightarrow> nat \<Rightarrow> fwk_status \<Rightarrow> scmi_clock_ctx
     \<Rightarrow> scmi_clock_ctx option" where
  "clock_ops_update_state cf env clock_dev_idx status s =
     (if status = FWK_SUCCESS then
        do {
          ops \<leftarrow> table_read (clock_ops s) clock_dev_idx;
          if request ops = SCMI_CLOCK_REQUEST_SET_STATE
          then map_option snd
                 (mod_scmi_clock_config_set_policy cf env (state ops)
                    MOD_SCMI_CLOCK_POST_MESSAGE_HANDLER (service_id ops) (clock_dev_id ops) s)
          else Some s
        }
      else Some s)"

section \<open>Responses\<close>

definition get_state_respond ::
  "scmi_clock_setup \<Rightarrow> scmi_clock_env \<Rightarrow> fwk_id \<Rightarrow> fwk_id \<Rightarrow> mod_clock_state \<Rightarrow> fwk_status
     \<Rightarrow> scmi_clock_ctx \<Rightarrow> scmi_clock_ctx" where
  "get_state_respond cf env dev service clock_state status s =
     (if status = FWK_SUCCESS
      then respond service
             (Clock_Attributes_P2A SCMI_SUCCESS (clock_state = MOD_CLOCK_STATE_RUNNING)
                (take (SCMI_CLOCK_NAME_LENGTH_MAX cf - 1) (fwk_module_get_name env dev))) s
      else respond service (Status_Only SCMI_GENERIC_ERROR) s)"

definition get_rate_respond ::
  "fwk_id \<Rightarrow> 64 word \<Rightarrow> fwk_status \<Rightarrow> scmi_clock_ctx \<Rightarrow> scmi_clock_ctx" where
  "get_rate_respond service rate status s =
     (if status = FWK_SUCCESS
      then respond service (Rate_Get_P2A SCMI_SUCCESS (rate_low rate) (rate_high rate)) s
      else respond service (Status_Only SCMI_GENERIC_ERROR) s)"

definition request_response :: "fwk_status \<Rightarrow> fwk_id \<Rightarrow> scmi_clock_ctx \<Rightarrow> scmi_clock_ctx" where
  "request_response response_status service s =
     respond service
       (Status_Only
          (if response_status = FWK_E_RANGE then SCMI_INVALID_PARAMETERS
           else if response_status = FWK_E_SUPPORT then SCMI_NOT_SUPPORTED
           else SCMI_GENERIC_ERROR)) s"

definition set_request_respond :: "fwk_id \<Rightarrow> fwk_status \<Rightarrow> scmi_clock_ctx \<Rightarrow> scmi_clock_ctx" where
  "set_request_respond service status s =
     respond service
       (Status_Only
          (if status = FWK_E_RANGE \<or> status = FWK_E_PARAM then SCMI_INVALID_PARAMETERS
           else if status = FWK_E_SUPPORT then SCMI_NOT_SUPPORTED
           else if status \<noteq> FWK_SUCCESS then SCMI_GENERIC_ERROR
           else SCMI_SUCCESS)) s"

section \<open>Claiming a slot and queueing the request\<close>

text \<open>
  \<^verbatim>\<open>data\<close> is the untyped pointer of the source: no data, rate data or state data. The
  event built for a request comes with the state the slot will record. Reading rate or
  state data that the caller did not pass has no defined result (\<open>None\<close>).
\<close>

definition request_event ::
  "fwk_id \<Rightarrow> scmi_clock_request_type \<Rightarrow> event_request_data
     \<Rightarrow> (fwk_status + event_request \<times> mod_clock_state) option" where
  "request_event clock_id req data =
     (case req of
        SCMI_CLOCK_REQUEST_GET_STATE \<Rightarrow>
          Some (Inr (\<lparr>event_id = SCMI_CLOCK_EVENT_IDX_GET_STATE, params_clock_dev_id = clock_id,
                      params_request_data = No_Request_Data\<rparr>, MOD_CLOCK_STATE_COUNT))
      | SCMI_CLOCK_REQUEST_GET_RATE \<Rightarrow>
          Some (Inr (\<lparr>event_id = SCMI_CLOCK_EVENT_IDX_GET_RATE, params_clock_dev_id = clock_id,
                      params_request_data = No_Request_Data\<rparr>, MOD_CLOCK_STATE_COUNT))
      | SCMI_CLOCK_REQUEST_SET_RATE \<Rightarrow>
          (case data of
             Set_Rate_Request_Data lo hi round_mode \<Rightarrow>
               Some (Inr (\<lparr>event_id = SCMI_CLOCK_EVENT_IDX_SET_RATE,
                           params_clock_dev_id = clock_id,
                           params_request_data = Set_Rate_Request_Data lo hi round_mode\<rparr>,
                          MOD_CLOCK_STATE_COUNT))
           | _ \<Rightarrow> None)
      | SCMI_CLOCK_REQUEST_SET_STATE \<Rightarrow>
          (case data of
             Set_State_Request_Data st \<Rightarrow>
               Some (Inr (\<lparr>event_id = SCMI_CLOCK_EVENT_IDX_SET_STATE,
                           params_clock_dev_id = clock_id,
                           params_request_data = Set_State_Request_Data st\<rparr>, st))
           | _ \<Rightarrow> None)
      | SCMI_CLOCK_REQUEST_COUNT \<Rightarrow> Some (Inl FWK_E_PARAM))"

definition create_event_request ::
  "scmi_clock_env \<Rightarrow> fwk_id \<Rightarrow> fwk_id \<Rightarrow> scmi_clock_request_type \<Rightarrow> event_request_data
     \<Rightarrow> 32 word \<Rightarrow> scmi_clock_ctx \<Rightarrow> (fwk_status \<times> scmi_clock_ctx) option" where
  "create_event_request env clock_id service req data clock_idx s =
     (let clock_dev_idx = fwk_id_get_element_idx clock_id in
      do {
        available \<leftarrow> clock_ops_is_available clock_dev_idx s;
        if \<not> available then Some (FWK_E_BUSY, s)
        else do {
          r \<leftarrow> request_event clock_id req data;
          (case r of
             Inl status \<Rightarrow> Some (status, s)
           | Inr (event, st) \<Rightarrow>
               (let status = fwk_thread_put_event env event in
                if status \<noteq> FWK_SUCCESS then Some (status, s)
                else do {
                  s' \<leftarrow> clock_ops_set_busy clock_dev_idx service clock_idx st req
                         (s\<lparr>event_queue := event_queue s @ [event]\<rparr>);
                  Some (FWK_SUCCESS, s')
                }))
        }
      })"

section \<open>Message handlers\<close>

text \<open>
  A payload is the receive buffer of the transport, read by words. The request structures
  are declared in the missing header; their fields are read at the offsets the source
  implies: the clock identifier is the first word of every clock message but
  ClockRateSet, which starts with its flags and ends with the two rate words.
\<close>

type_synonym payload = "nat \<Rightarrow> 32 word"

type_synonym handler =
  "scmi_clock_setup \<Rightarrow> scmi_clock_env \<Rightarrow> fwk_id \<Rightarrow> payload \<Rightarrow> scmi_clock_ctx
     \<Rightarrow> (fwk_status \<times> scmi_clock_ctx) option"

definition scmi_clock_protocol_version_handler :: handler where
  "scmi_clock_protocol_version_handler cf env service p s =
     Some (FWK_SUCCESS,
           respond service (Protocol_Version_P2A SCMI_SUCCESS (SCMI_PROTOCOL_VERSION_CLOCK cf)) s)"

definition scmi_clock_protocol_attributes_handler :: handler where
  "scmi_clock_protocol_attributes_handler cf env service p s =
     (case get_agent_entry cf env service of
        Inl status \<Rightarrow>
          Some (status, respond service (Protocol_Attributes_P2A SCMI_GENERIC_ERROR None) s)
      | Inr agent \<Rightarrow>
          Some (FWK_SUCCESS,
                respond service
                  (Protocol_Attributes_P2A SCMI_SUCCESS
                     (Some (max_pending_transactions (config cf), device_count agent))) s))"

text \<open>
  Modelled from the spec: the message identifiers are declared in \<^verbatim>\<open>mod_scmi_std.h\<close> and
  \<^verbatim>\<open>mod_scmi_clock.h\<close>, which are not among the sources. The protocol has the eight
  opcodes of the message table, numbered 0 to 7 as the SCMI clock protocol numbers them,
  so the two dispatch tables have eight entries and no gap.
\<close>

definition MOD_SCMI_PROTOCOL_VERSION :: nat where "MOD_SCMI_PROTOCOL_VERSION = 0"
definition MOD_SCMI_PROTOCOL_ATTRIBUTES :: nat where "MOD_SCMI_PROTOCOL_ATTRIBUTES = 1"
definition MOD_SCMI_PROTOCOL_MESSAGE_ATTRIBUTES :: nat where
  "MOD_SCMI_PROTOCOL_MESSAGE_ATTRIBUTES = 2"
definition MOD_SCMI_CLOCK_ATTRIBUTES :: nat where "MOD_SCMI_CLOCK_ATTRIBUTES = 3"
definition MOD_SCMI_CLOCK_DESCRIBE_RATES :: nat where "MOD_SCMI_CLOCK_DESCRIBE_RATES = 4"
definition MOD_SCMI_CLOCK_RATE_SET :: nat where "MOD_SCMI_CLOCK_RATE_SET = 5"
definition MOD_SCMI_CLOCK_RATE_GET :: nat where "MOD_SCMI_CLOCK_RATE_GET = 6"
definition MOD_SCMI_CLOCK_CONFIG_SET :: nat where "MOD_SCMI_CLOCK_CONFIG_SET = 7"

definition handler_table_size :: nat where
  "handler_table_size = 8"

definition scmi_clock_protocol_message_attributes_handler :: handler where
  "scmi_clock_protocol_message_attributes_handler cf env service p s =
     (let message_id = unat (p 0) in
      if message_id \<ge> handler_table_size
      then Some (FWK_SUCCESS, respond service (Status_Only SCMI_NOT_FOUND) s)
      else Some (FWK_SUCCESS, respond service (Message_Attributes_P2A SCMI_SUCCESS 0) s))"

definition scmi_clock_attributes_handler :: handler where
  "scmi_clock_attributes_handler cf env service p s =
     (let clock_id = p 0 in
      case get_clock_device_entry cf env service (unat clock_id) of
        Inl status \<Rightarrow> Some (status, respond service (Status_Only SCMI_NOT_FOUND) s)
      | Inr (clock_device, agent) \<Rightarrow>
          do {
            (status, s') \<leftarrow> create_event_request env (element_id clock_device) service
                              SCMI_CLOCK_REQUEST_GET_STATE No_Request_Data clock_id s;
            if status = FWK_E_BUSY
            then Some (FWK_SUCCESS, respond service (Status_Only SCMI_BUSY) s')
            else if status \<noteq> FWK_SUCCESS
            then Some (status, respond service (Status_Only SCMI_GENERIC_ERROR) s')
            else Some (FWK_SUCCESS, s')
          })"

definition scmi_clock_rate_get_handler :: handler where
  "scmi_clock_rate_get_handler cf env service p s =
     (let clock_id = p 0 in
      case get_clock_device_entry cf env service (unat clock_id) of
        Inl status \<Rightarrow> Some (status, respond service (Status_Only SCMI_NOT_FOUND) s)
      | Inr (clock_device, agent) \<Rightarrow>
          do {
            (status, s') \<leftarrow> create_event_request env (element_id clock_device) service
                              SCMI_CLOCK_REQUEST_GET_RATE No_Request_Data clock_id s;
            if status = FWK_E_BUSY
            then Some (FWK_SUCCESS, respond service (Status_Only SCMI_BUSY) s')
            else if status \<noteq> FWK_SUCCESS
            then Some (status, respond service (Status_Only SCMI_GENERIC_ERROR) s')
            else Some (FWK_SUCCESS, s')
          })"

definition scmi_clock_rate_set_handler :: handler where
  "scmi_clock_rate_set_handler cf env service p s =
     (let flags = p 0;
          clock_id = p 1;
          round_up = (flags AND SCMI_CLOCK_RATE_SET_ROUND_UP_MASK cf \<noteq> 0);
          round_auto = (flags AND SCMI_CLOCK_RATE_SET_ROUND_AUTO_MASK cf \<noteq> 0);
          asynchronous = (flags AND SCMI_CLOCK_RATE_SET_ASYNC_MASK cf \<noteq> 0)
      in
      if flags AND NOT (SCMI_CLOCK_RATE_SET_FLAGS_MASK cf) \<noteq> 0
      then Some (FWK_SUCCESS, respond service (Status_Only SCMI_INVALID_PARAMETERS) s)
      else
        case get_clock_device_entry cf env service (unat clock_id) of
          Inl status \<Rightarrow> Some (FWK_SUCCESS, respond service (Status_Only SCMI_NOT_FOUND) s)
        | Inr (clock_device, agent) \<Rightarrow>
            if asynchronous
            then Some (FWK_SUCCESS, respond service (Status_Only SCMI_NOT_SUPPORTED) s)
            else if fst (get_agent_id env service) \<noteq> FWK_SUCCESS
            then Some (FWK_SUCCESS, respond service (Status_Only SCMI_GENERIC_ERROR) s)
            else
              (let rate = rate_of_words_or (p 2) (p 3);
                   round_mode =
                     (if round_auto then MOD_CLOCK_ROUND_MODE_NEAREST
                      else if round_up then MOD_CLOCK_ROUND_MODE_UP
                      else MOD_CLOCK_ROUND_MODE_DOWN)
               in
               case mod_scmi_clock_rate_set_policy round_mode rate
                      MOD_SCMI_CLOCK_PRE_MESSAGE_HANDLER service clock_id of
                 (status, policy_status, round_mode', rate') \<Rightarrow>
                   if status \<noteq> FWK_SUCCESS
                   then Some (FWK_SUCCESS, respond service (Status_Only SCMI_GENERIC_ERROR) s)
                   else if policy_status = MOD_SCMI_CLOCK_SKIP_MESSAGE_HANDLER
                   then Some (FWK_SUCCESS, respond service (Status_Only SCMI_SUCCESS) s)
                   else
                     do {
                       (status, s') \<leftarrow> create_event_request env (element_id clock_device) service
                                         SCMI_CLOCK_REQUEST_SET_RATE
                                         (Set_Rate_Request_Data (rate_low rate') (rate_high rate')
                                            round_mode')
                                         clock_id s;
                       if status = FWK_E_BUSY
                       then Some (FWK_SUCCESS, respond service (Status_Only SCMI_BUSY) s')
                       else if status \<noteq> FWK_SUCCESS
                       then Some (FWK_SUCCESS,
                                  respond service (Status_Only SCMI_GENERIC_ERROR) s')
                       else Some (FWK_SUCCESS, s')
                     }))"

definition scmi_clock_config_set_handler :: handler where
  "scmi_clock_config_set_handler cf env service p s =
     (let clock_id = p 0;
          attributes = p 1;
          enable = (attributes AND SCMI_CLOCK_CONFIG_SET_ENABLE_MASK cf \<noteq> 0)
      in
      case get_clock_device_entry cf env service (unat clock_id) of
        Inl status \<Rightarrow> Some (FWK_SUCCESS, respond service (Status_Only SCMI_NOT_FOUND) s)
      | Inr (clock_device, agent) \<Rightarrow>
          if attributes AND NOT (SCMI_CLOCK_CONFIG_SET_ENABLE_MASK cf) \<noteq> 0
          then Some (FWK_SUCCESS, respond service (Status_Only SCMI_INVALID_PARAMETERS) s)
          else
            (let data_state =
                   (if enable then MOD_CLOCK_STATE_RUNNING else MOD_CLOCK_STATE_STOPPED)
             in
             if fst (get_agent_id env service) \<noteq> FWK_SUCCESS
             then Some (FWK_SUCCESS, respond service (Status_Only SCMI_GENERIC_ERROR) s)
             else
               do {
                 ((status, policy_status), s1) \<leftarrow>
                    mod_scmi_clock_config_set_policy cf env data_state
                      MOD_SCMI_CLOCK_PRE_MESSAGE_HANDLER service clock_id s;
                 if status \<noteq> FWK_SUCCESS
                 then Some (FWK_SUCCESS, respond service (Status_Only SCMI_GENERIC_ERROR) s1)
                 else if policy_status = MOD_SCMI_CLOCK_SKIP_MESSAGE_HANDLER
                 then Some (FWK_SUCCESS, respond service (Status_Only SCMI_SUCCESS) s1)
                 else
                   do {
                     (status, s2) \<leftarrow> create_event_request env (element_id clock_device) service
                                       SCMI_CLOCK_REQUEST_SET_STATE
                                       (Set_State_Request_Data data_state) clock_id s1;
                     if status = FWK_E_BUSY
                     then Some (FWK_SUCCESS, respond service (Status_Only SCMI_BUSY) s2)
                     else if status \<noteq> FWK_SUCCESS
                     then Some (FWK_SUCCESS,
                                respond service (Status_Only SCMI_GENERIC_ERROR) s2)
                     else Some (FWK_SUCCESS, s2)
                   }
               }))"

subsection \<open>Describe rates\<close>

text \<open>
  The response starts with the status and the \<^verbatim>\<open>num_rates_flags\<close> word, 8 bytes together;
  a rate entry is a low and a high word, 8 bytes.
\<close>

definition describe_rates_header_size :: nat where
  "describe_rates_header_size = 8"

definition scmi_clock_rate_size :: nat where
  "scmi_clock_rate_size = 8"

text \<open>
  Modelled from the spec: the macro \<^verbatim>\<open>SCMI_CLOCK_RATES_MAX\<close> is declared in the missing
  header. It is the number of rate entries that fit in the payload after the fixed
  header, \<open>floor((max_payload - fixed_header_size) / rate_entry_size)\<close>; a payload that
  does not exceed the header holds none.
\<close>

definition SCMI_CLOCK_RATES_MAX :: "nat \<Rightarrow> nat" where
  "SCMI_CLOCK_RATES_MAX max_payload_size =
     (max_payload_size - describe_rates_header_size) div scmi_clock_rate_size"

definition write_block ::
  "scmi_clock_env \<Rightarrow> fwk_id \<Rightarrow> nat \<Rightarrow> payload_block \<Rightarrow> nat \<Rightarrow> scmi_clock_ctx
     \<Rightarrow> fwk_status \<times> scmi_clock_ctx" where
  "write_block env service offset block len s =
     (let status = write_payload env service offset len in
      if status \<noteq> FWK_SUCCESS then (status, s)
      else (FWK_SUCCESS, s\<lparr>payload_writes := payload_writes s @ [(service, offset, block)]\<rparr>))"

text \<open>
  The loop over the entries of one page: \<open>k\<close> iterations are left, \<open>i\<close> is the loop
  counter and \<open>payload_size\<close> the offset of the next entry. It stops at the first call
  that fails. Counts, indices and sizes are natural numbers (they are \<^verbatim>\<open>unsigned int\<close>,
  \<^verbatim>\<open>uint32_t\<close> and \<^verbatim>\<open>size_t\<close> in the source, none of them near its upper end here).
\<close>

fun describe_rates_loop ::
  "scmi_clock_env \<Rightarrow> fwk_id \<Rightarrow> fwk_id \<Rightarrow> nat \<Rightarrow> nat \<Rightarrow> nat \<Rightarrow> nat \<Rightarrow> scmi_clock_ctx
     \<Rightarrow> fwk_status \<times> nat \<times> scmi_clock_ctx" where
  "describe_rates_loop env dev service index 0 i payload_size s = (FWK_SUCCESS, payload_size, s)"
| "describe_rates_loop env dev service index (Suc k) i payload_size s =
     (case get_rate_from_index env dev (index + i) of
        (status, rate) \<Rightarrow>
          if status \<noteq> FWK_SUCCESS then (status, payload_size, s)
          else
            (case write_block env service payload_size
                    (Rate_Entry (rate_low rate) (rate_high rate)) scmi_clock_rate_size s of
               (status, s') \<Rightarrow>
                 if status \<noteq> FWK_SUCCESS then (status, payload_size, s')
                 else describe_rates_loop env dev service index k (Suc i)
                        (payload_size + scmi_clock_rate_size) s'))"

text \<open>
  The common end of both successful branches: the header is written at offset 0 and the
  response is sent with a null payload and the accumulated size, whatever the last write
  answered; the handler returns that last status.
\<close>

definition describe_rates_finish ::
  "scmi_clock_env \<Rightarrow> fwk_id \<Rightarrow> nat \<Rightarrow> scmi_rate_format \<Rightarrow> nat \<Rightarrow> nat \<Rightarrow> scmi_clock_ctx
     \<Rightarrow> fwk_status \<times> scmi_clock_ctx" where
  "describe_rates_finish env service num_rates fmt remaining payload_size s =
     (case write_block env service 0
             (Describe_Rates_Header SCMI_SUCCESS num_rates fmt remaining)
             describe_rates_header_size s of
        (status, s') \<Rightarrow> (status, respond service (Written_Payload payload_size) s'))"

definition scmi_clock_describe_rates_handler :: handler where
  "scmi_clock_describe_rates_handler cf env service p s =
     (let clock_id = p 0;
          index = unat (p 1);
          payload_size = describe_rates_header_size
      in
      case get_clock_device_entry cf env service (unat clock_id) of
        Inl status \<Rightarrow> Some (status, respond service (Status_Only SCMI_NOT_FOUND) s)
      | Inr (clock_device, agent) \<Rightarrow>
          (case get_max_payload_size env service of
             (status, max_payload_size) \<Rightarrow>
               if status \<noteq> FWK_SUCCESS
               then Some (status, respond service (Status_Only SCMI_GENERIC_ERROR) s)
               else
                 (case get_info env (element_id clock_device) of
                    (status, info) \<Rightarrow>
                      if status \<noteq> FWK_SUCCESS
                      then Some (status, respond service (Status_Only SCMI_GENERIC_ERROR) s)
                      else if rate_type info = MOD_CLOCK_RATE_TYPE_DISCRETE then
                        (if index \<ge> rate_count info
                         then Some (status, respond service (Status_Only SCMI_OUT_OF_RANGE) s)
                         else if SCMI_CLOCK_RATES_MAX max_payload_size = 0
                         then Some (FWK_E_SIZE,
                                    respond service (Status_Only SCMI_GENERIC_ERROR) s)
                         else
                           (let num_rates = min (SCMI_CLOCK_RATES_MAX max_payload_size)
                                                (rate_count info - index);
                                remaining_rates = (rate_count info - index) - num_rates
                            in
                            case describe_rates_loop env (element_id clock_device) service
                                   index num_rates 0 payload_size s of
                              (status, payload_size', s') \<Rightarrow>
                                if status \<noteq> FWK_SUCCESS
                                then Some (status,
                                           respond service (Status_Only SCMI_GENERIC_ERROR) s')
                                else Some (describe_rates_finish env service num_rates
                                             SCMI_CLOCK_RATE_FORMAT_LIST remaining_rates
                                             payload_size' s')))
                      else
                        (if SCMI_CLOCK_RATES_MAX max_payload_size < 3
                         then Some (FWK_E_SIZE,
                                    respond service (Status_Only SCMI_GENERIC_ERROR) s)
                         else
                           (case write_block env service payload_size
                                   (Rate_Range
                                      [(rate_low (range_min info), rate_high (range_min info)),
                                       (rate_low (range_max info), rate_high (range_max info)),
                                       (rate_low (range_step info), rate_high (range_step info))])
                                   (3 * scmi_clock_rate_size) s of
                              (status, s') \<Rightarrow>
                                if status \<noteq> FWK_SUCCESS
                                then Some (status,
                                           respond service (Status_Only SCMI_GENERIC_ERROR) s')
                                else Some (describe_rates_finish env service 1
                                             SCMI_CLOCK_RATE_FORMAT_RANGE 0
                                             (payload_size + 3 * scmi_clock_rate_size) s'))))))"

section \<open>Protocol dispatcher\<close>

definition handler_table :: "handler list" where
  "handler_table =
     [scmi_clock_protocol_version_handler,
      scmi_clock_protocol_attributes_handler,
      scmi_clock_protocol_message_attributes_handler,
      scmi_clock_attributes_handler,
      scmi_clock_describe_rates_handler,
      scmi_clock_rate_set_handler,
      scmi_clock_rate_get_handler,
      scmi_clock_config_set_handler]"

text \<open>
  The fixed payload size of each message, in bytes, at the index of its identifier: the
  size of its request structure, 4 bytes for each 32-bit field the handlers read.
\<close>

definition payload_size_table :: "nat list" where
  "payload_size_table = [0, 0, 4, 4, 8, 16, 4, 8]"

definition get_clock_id :: "payload \<Rightarrow> nat \<Rightarrow> 32 word" where
  "get_clock_id p message_id = (if message_id = MOD_SCMI_CLOCK_RATE_SET then p 1 else p 0)"

definition scmi_clock_permissions_handler ::
  "scmi_clock_env \<Rightarrow> fwk_id \<Rightarrow> payload \<Rightarrow> nat \<Rightarrow> nat \<Rightarrow> fwk_status" where
  "scmi_clock_permissions_handler env service p payload_size message_id =
     (case get_agent_id env service of
        (status, agent_id) \<Rightarrow>
          if status \<noteq> FWK_SUCCESS then FWK_E_ACCESS
          else if message_id < 3
          then (if agent_has_protocol_permission env agent_id then FWK_SUCCESS
                else FWK_E_ACCESS)
          else if agent_has_resource_permission env agent_id message_id
                    (get_clock_id p message_id)
          then FWK_SUCCESS
          else FWK_E_ACCESS)"

text \<open>
  The dispatcher, over any pair of tables, and over the module's own. Each error exit
  sends the 32-bit \<^verbatim>\<open>return_value\<close> alone.
\<close>

definition message_handler_with ::
  "handler list \<Rightarrow> nat list \<Rightarrow> scmi_clock_setup \<Rightarrow> scmi_clock_env \<Rightarrow> fwk_id \<Rightarrow> payload
     \<Rightarrow> nat \<Rightarrow> nat \<Rightarrow> scmi_clock_ctx \<Rightarrow> (fwk_status \<times> scmi_clock_ctx) option" where
  "message_handler_with handlers sizes cf env service p payload_size message_id s =
     (if message_id \<ge> length handlers
      then Some (FWK_SUCCESS, respond service (Status_Only SCMI_NOT_FOUND) s)
      else if payload_size \<noteq> sizes ! message_id
      then Some (FWK_SUCCESS, respond service (Status_Only SCMI_PROTOCOL_ERROR) s)
      else if build_has_mod_resource_perms cf \<and>
              scmi_clock_permissions_handler env service p payload_size message_id \<noteq> FWK_SUCCESS
      then Some (FWK_SUCCESS, respond service (Status_Only SCMI_DENIED) s)
      else (handlers ! message_id) cf env service p s)"

definition scmi_clock_message_handler ::
  "scmi_clock_setup \<Rightarrow> scmi_clock_env \<Rightarrow> fwk_id \<Rightarrow> payload \<Rightarrow> nat \<Rightarrow> nat \<Rightarrow> scmi_clock_ctx
     \<Rightarrow> (fwk_status \<times> scmi_clock_ctx) option" where
  "scmi_clock_message_handler = message_handler_with handler_table payload_size_table"

section \<open>Processing events\<close>

text \<open>
  A request event, queued by \<^verbatim>\<open>create_event_request\<close>, is carried out against the clock
  HAL. The \<^verbatim>\<open>switch\<close> yields either the early return of its default branch (\<open>Inl\<close>) or the
  status the tail of the function looks at, with the state reached (\<open>Inr\<close>).
\<close>

definition request_event_switch ::
  "scmi_clock_setup \<Rightarrow> scmi_clock_env \<Rightarrow> event_request \<Rightarrow> nat \<Rightarrow> fwk_id \<Rightarrow> scmi_clock_ctx
     \<Rightarrow> (fwk_status + fwk_status \<times> scmi_clock_ctx) option" where
  "request_event_switch cf env event clock_dev_idx service s =
     (let dev = params_clock_dev_id event in
      case event_id event of
        SCMI_CLOCK_EVENT_IDX_GET_STATE \<Rightarrow>
          (case get_state env dev of
             (status, clock_state) \<Rightarrow>
               Some (Inr (status,
                          if status \<noteq> FWK_PENDING
                          then get_state_respond cf env dev service clock_state status s
                          else s)))
      | SCMI_CLOCK_EVENT_IDX_GET_RATE \<Rightarrow>
          (case get_rate env dev of
             (status, rate) \<Rightarrow>
               Some (Inr (status,
                          if status \<noteq> FWK_PENDING then get_rate_respond service rate status s
                          else s)))
      | SCMI_CLOCK_EVENT_IDX_SET_RATE \<Rightarrow>
          (case params_request_data event of
             Set_Rate_Request_Data lo hi round_mode \<Rightarrow>
               (let rate = rate_of_words_add lo hi;
                    status = set_rate env dev rate round_mode
                in
                if status \<noteq> FWK_PENDING
                then Some (Inr (FWK_SUCCESS, set_request_respond service status s))
                else Some (Inr (status, s)))
           | _ \<Rightarrow> None)
      | SCMI_CLOCK_EVENT_IDX_SET_STATE \<Rightarrow>
          (case params_request_data event of
             Set_State_Request_Data st \<Rightarrow>
               (let status = set_state env dev st in
                if status \<noteq> FWK_PENDING
                then do {
                  s' \<leftarrow> clock_ops_update_state cf env clock_dev_idx status
                         (set_request_respond service status s);
                  Some (Inr (FWK_SUCCESS, s'))
                }
                else Some (Inr (status, s)))
           | _ \<Rightarrow> None)
      | SCMI_CLOCK_EVENT_IDX_COUNT \<Rightarrow> Some (Inl FWK_E_PARAM))"

definition process_request_event ::
  "scmi_clock_setup \<Rightarrow> scmi_clock_env \<Rightarrow> event_request \<Rightarrow> scmi_clock_ctx
     \<Rightarrow> (fwk_status \<times> scmi_clock_ctx) option" where
  "process_request_event cf env event s =
     (let clock_dev_idx = fwk_id_get_element_idx (params_clock_dev_id event) in
      do {
        service \<leftarrow> clock_ops_get_service clock_dev_idx s;
        r \<leftarrow> request_event_switch cf env event clock_dev_idx service s;
        (case r of
           Inl status \<Rightarrow> Some (status, s)
         | Inr (status, s') \<Rightarrow>
             if status = FWK_PENDING then Some (FWK_SUCCESS, s')
             else if status = FWK_SUCCESS
             then map_option (Pair status) (clock_ops_set_available clock_dev_idx s')
             else Some (status, s'))
      })"

text \<open>
  A response event comes from the clock HAL when a pending operation completes: its
  source is the clock device, its parameters the status and, for a get, the value.
\<close>

datatype mod_clock_resp_value = No_Value | State_Value mod_clock_state | Rate_Value "64 word"

record event_response =
  source_id :: fwk_id
  response_id :: mod_clock_event_idx
  params_status :: fwk_status
  params_value :: mod_clock_resp_value

definition response_event_switch ::
  "scmi_clock_setup \<Rightarrow> scmi_clock_env \<Rightarrow> event_response \<Rightarrow> nat \<Rightarrow> fwk_id \<Rightarrow> scmi_clock_ctx
     \<Rightarrow> (fwk_status + scmi_clock_ctx) option" where
  "response_event_switch cf env event clock_dev_idx service s =
     (if params_status event \<noteq> FWK_SUCCESS
      then Some (Inr (request_response (params_status event) service s))
      else
        case response_id event of
          MOD_CLOCK_EVENT_IDX_GET_STATE_REQUEST \<Rightarrow>
            (case params_value event of
               State_Value clock_state \<Rightarrow>
                 Some (Inr (get_state_respond cf env (source_id event) service clock_state
                              FWK_SUCCESS s))
             | _ \<Rightarrow> None)
        | MOD_CLOCK_EVENT_IDX_GET_RATE_REQUEST \<Rightarrow>
            (case params_value event of
               Rate_Value rate \<Rightarrow> Some (Inr (get_rate_respond service rate FWK_SUCCESS s))
             | _ \<Rightarrow> None)
        | MOD_CLOCK_EVENT_IDX_SET_RATE_REQUEST \<Rightarrow>
            map_option Inr
              (clock_ops_update_state cf env clock_dev_idx FWK_SUCCESS
                 (set_request_respond service FWK_SUCCESS s))
        | MOD_CLOCK_EVENT_IDX_SET_STATE_REQUEST \<Rightarrow>
            map_option Inr
              (clock_ops_update_state cf env clock_dev_idx FWK_SUCCESS
                 (set_request_respond service FWK_SUCCESS s))
        | MOD_CLOCK_EVENT_IDX_COUNT \<Rightarrow> Some (Inl FWK_E_PARAM))"

definition process_response_event ::
  "scmi_clock_setup \<Rightarrow> scmi_clock_env \<Rightarrow> event_response \<Rightarrow> scmi_clock_ctx
     \<Rightarrow> (fwk_status \<times> scmi_clock_ctx) option" where
  "process_response_event cf env event s =
     (let clock_dev_idx = fwk_id_get_element_idx (source_id event) in
      do {
        service \<leftarrow> clock_ops_get_service clock_dev_idx s;
        r \<leftarrow> response_event_switch cf env event clock_dev_idx service s;
        (case r of
           Inl status \<Rightarrow> Some (status, s)
         | Inr s' \<Rightarrow> map_option (Pair FWK_SUCCESS) (clock_ops_set_available clock_dev_idx s'))
      })"

section \<open>An example platform\<close>

text \<open>
  Two agents that both see the same two clock devices; the first agent's view of clock 0
  starts enabled. The transport resolves service \<open>n\<close> to agent \<open>n\<close> and accepts every
  write; the clock HAL answers at once, with a failure for \<^verbatim>\<open>get_rate\<close>, and reports three
  discrete rates. A payload of 24 bytes holds the header and two rate entries.
\<close>

definition example_agent0 :: mod_scmi_clock_agent where
  "example_agent0 =
     \<lparr>device_table = [\<lparr>element_id = FWK_ID_ELEMENT 2 0, starts_enabled = True\<rparr>,
                      \<lparr>element_id = FWK_ID_ELEMENT 2 1, starts_enabled = False\<rparr>]\<rparr>"

definition example_agent1 :: mod_scmi_clock_agent where
  "example_agent1 =
     \<lparr>device_table = [\<lparr>element_id = FWK_ID_ELEMENT 2 0, starts_enabled = False\<rparr>,
                      \<lparr>element_id = FWK_ID_ELEMENT 2 1, starts_enabled = False\<rparr>]\<rparr>"

definition example_setup :: scmi_clock_setup where
  "example_setup =
     \<lparr>config = \<lparr>max_pending_transactions = 0, agent_table = [example_agent0, example_agent1]\<rparr>,
      clock_devices = 2,
      build_has_mod_resource_perms = False,
      SCMI_CLOCK_RATE_SET_ROUND_UP_MASK = 8,
      SCMI_CLOCK_RATE_SET_ROUND_AUTO_MASK = 4,
      SCMI_CLOCK_RATE_SET_ASYNC_MASK = 1,
      SCMI_CLOCK_CONFIG_SET_ENABLE_MASK = 1,
      SCMI_PROTOCOL_VERSION_CLOCK = 0x10000,
      SCMI_CLOCK_NAME_LENGTH_MAX = 16\<rparr>"

definition example_env :: scmi_clock_env where
  "example_env =
     \<lparr>get_agent_id = (\<lambda>service. (FWK_SUCCESS, fwk_id_get_element_idx service)),
      get_max_payload_size = (\<lambda>service. (FWK_SUCCESS, 24)),
      write_payload = (\<lambda>service offset len. FWK_SUCCESS),
      fwk_thread_put_event = (\<lambda>event. FWK_SUCCESS),
      fwk_module_get_name = (\<lambda>dev. ''CLK''),
      get_state = (\<lambda>dev. (FWK_SUCCESS, MOD_CLOCK_STATE_RUNNING)),
      get_rate = (\<lambda>dev. (FWK_E_DEVICE, 0)),
      set_rate = (\<lambda>dev rate round_mode. FWK_SUCCESS),
      set_state = (\<lambda>dev st. FWK_SUCCESS),
      get_info = (\<lambda>dev. (FWK_SUCCESS,
                   \<lparr>rate_type = MOD_CLOCK_RATE_TYPE_DISCRETE, range_min = 0, range_max = 0,
                    range_step = 0, rate_count = 3\<rparr>)),
      get_rate_from_index = (\<lambda>dev i. (FWK_SUCCESS, word_of_nat i)),
      agent_has_protocol_permission = (\<lambda>agent_id. True),
      agent_has_resource_permission = (\<lambda>agent_id message_id clock_id. True)\<rparr>"

text \<open>A receive buffer holding the given words, zero beyond them.\<close>

definition words :: "32 word list \<Rightarrow> payload" where
  "words ws i = (if i < length ws then ws ! i else 0)"

text \<open>
  The policy tables as seeded for this platform, a state in which agent 1 holds the slot
  of clock 0 for a pending state query, and the idle state with seeded tables.
\<close>

definition example_tables :: policy_tables where
  "example_tables = \<lparr>agent_clock_state = [1, 0, 0, 0], clock_count = [1, 0, 0, 0, 0, 0, 0, 0]\<rparr>"

definition example_busy_state :: scmi_clock_ctx where
  "example_busy_state =
     \<lparr>clock_ops =
        [\<lparr>service_id = FWK_ID_ELEMENT 1 1, state = MOD_CLOCK_STATE_COUNT, clock_dev_id = 0,
          request = SCMI_CLOCK_REQUEST_GET_STATE\<rparr>,
         \<lparr>service_id = FWK_ID_NONE, state = MOD_CLOCK_STATE_STOPPED, clock_dev_id = 0,
          request = SCMI_CLOCK_REQUEST_GET_STATE\<rparr>],
      tables = Some example_tables,
      event_queue =
        [\<lparr>event_id = SCMI_CLOCK_EVENT_IDX_GET_STATE, params_clock_dev_id = FWK_ID_ELEMENT 2 0,
          params_request_data = No_Request_Data\<rparr>],
      responses = [],
      payload_writes = []\<rparr>"

definition example_idle_state :: scmi_clock_ctx where
  "example_idle_state = (scmi_clock_init 2)\<lparr>tables := Some example_tables\<rparr>"


definition example_failing_set_state_env :: scmi_clock_env where
  "example_failing_set_state_env = example_env\<lparr>set_state := (\<lambda>dev st. FWK_E_DEVICE)\<rparr>"

text \<open>
  Two states with a claimed slot for clock 0, both of agent 0: one for a request to stop
  the clock, with seeded tables, and one for a rate query on the freshly initialised
  module.
\<close>

definition example_disable_claimed :: scmi_clock_ctx where
  "example_disable_claimed =
     \<lparr>clock_ops =
        [\<lparr>service_id = FWK_ID_ELEMENT 1 0, state = MOD_CLOCK_STATE_STOPPED, clock_dev_id = 0,
          request = SCMI_CLOCK_REQUEST_SET_STATE\<rparr>,
         \<lparr>service_id = FWK_ID_NONE, state = MOD_CLOCK_STATE_STOPPED, clock_dev_id = 0,
          request = SCMI_CLOCK_REQUEST_GET_STATE\<rparr>],
      tables = Some example_tables,
      event_queue =
        [\<lparr>event_id = SCMI_CLOCK_EVENT_IDX_SET_STATE, params_clock_dev_id = FWK_ID_ELEMENT 2 0,
          params_request_data = Set_State_Request_Data MOD_CLOCK_STATE_STOPPED\<rparr>],
      responses = [],
      payload_writes = []\<rparr>"

definition example_rate_claimed :: scmi_clock_ctx where
  "example_rate_claimed =
     \<lparr>clock_ops =
        [\<lparr>service_id = FWK_ID_ELEMENT 1 0, state = MOD_CLOCK_STATE_COUNT, clock_dev_id = 0,
          request = SCMI_CLOCK_REQUEST_GET_RATE\<rparr>,
         \<lparr>service_id = FWK_ID_NONE, state = MOD_CLOCK_STATE_STOPPED, clock_dev_id = 0,
          request = SCMI_CLOCK_REQUEST_GET_STATE\<rparr>],
      tables = None,
      event_queue =
        [\<lparr>event_id = SCMI_CLOCK_EVENT_IDX_GET_RATE, params_clock_dev_id = FWK_ID_ELEMENT 2 0,
          params_request_data = No_Request_Data\<rparr>],
      responses = [],
      payload_writes = []\<rparr>"

section \<open>Properties of the wire encoding\<close>




section \<open>Facts about the lookups, the tracker and the policy\<close>

lemmas example_defs =
  example_setup_def example_env_def example_agent0_def example_agent1_def example_tables_def
  example_busy_state_def example_idle_state_def words_def agent_count_def device_count_def
  scmi_clock_init_def

lemmas lookup_defs =
  get_clock_device_entry_def get_agent_entry_def get_agent_clock_state_def
  set_agent_clock_state_def table_read_def table_write_def

lemmas event_defs =
  create_event_request_def request_event_def clock_ops_is_available_def clock_ops_set_busy_def
  clock_ops_set_available_def clock_ops_get_service_def clock_ops_update_state_def
  process_request_event_def request_event_switch_def process_response_event_def
  response_event_switch_def get_state_respond_def get_rate_respond_def request_response_def
  set_request_respond_def respond_def

lemma get_agent_entry_ok:
  "get_agent_id env service = (FWK_SUCCESS, a) \<Longrightarrow> a < agent_count (config cf) \<Longrightarrow>
     get_agent_entry cf env service = Inr (agent_table (config cf) ! a)"
  by (simp add: get_agent_entry_def)

lemma get_clock_device_entry_ok:
  "get_agent_id env service = (FWK_SUCCESS, a) \<Longrightarrow> a < agent_count (config cf) \<Longrightarrow>
   i < device_count (agent_table (config cf) ! a) \<Longrightarrow>
     get_clock_device_entry cf env service i =
       Inr (device_table (agent_table (config cf) ! a) ! i, agent_table (config cf) ! a)"
  by (simp add: get_clock_device_entry_def get_agent_entry_ok)

lemma get_agent_clock_state_ok:
  "get_agent_id env service = (FWK_SUCCESS, a) \<Longrightarrow> a < agent_count (config cf) \<Longrightarrow>
   i < device_count (agent_table (config cf) ! a) \<Longrightarrow>
   a * clock_devices cf + i < length tbl \<Longrightarrow>
     get_agent_clock_state cf env service i tbl = Some (Inr (tbl ! (a * clock_devices cf + i)))"
  by (simp add: get_agent_clock_state_def get_agent_entry_ok table_read_def)


lemma lookup_agent_id_ok:
  "get_clock_device_entry cf env service i = Inr (dev, agent) \<Longrightarrow>
     fst (get_agent_id env service) = FWK_SUCCESS"
  by (auto simp: get_clock_device_entry_def get_agent_entry_def
           split: sum.splits prod.splits if_splits)

lemma policy_frame:
  "mod_scmi_clock_config_set_policy cf env st pc service dev_id s = Some (r, s') \<Longrightarrow>
     \<exists>t'. s' = s\<lparr>tables := Some t'\<rparr>"
  unfolding mod_scmi_clock_config_set_policy_def
  by (auto simp: Let_def split: Option.bind_splits sum.splits mod_clock_state.splits if_splits)

lemma policy_pre:
  "mod_scmi_clock_config_set_policy cf env st MOD_SCMI_CLOCK_PRE_MESSAGE_HANDLER service dev_id s
     = Some (r, s') \<Longrightarrow> s' = s\<lparr>tables := policy_tables_of cf s\<rparr>"
  unfolding mod_scmi_clock_config_set_policy_def
  by (auto simp: Let_def split: Option.bind_splits sum.splits mod_clock_state.splits if_splits)

lemma policy_pre_returns:
  assumes "tables s = Some t"
      and "get_agent_id env service = (FWK_SUCCESS, a)" "a < agent_count (config cf)"
      and "unat dev_id < device_count (agent_table (config cf) ! a)"
      and "a * clock_devices cf + unat dev_id < length (agent_clock_state t)"
      and "unat dev_id < length (clock_count t)"
  shows "\<exists>r. mod_scmi_clock_config_set_policy cf env st MOD_SCMI_CLOCK_PRE_MESSAGE_HANDLER
               service dev_id s = Some (r, s)"
  using assms(1,5,6)
  by (cases st)
     (simp_all add: mod_scmi_clock_config_set_policy_def policy_tables_of_def
        get_agent_clock_state_ok [OF assms(2,3,4)] table_read_def Let_def)

lemma create_event_request_busy:
  "table_read (clock_ops s) (fwk_id_get_element_idx clock_id) = Some ops \<Longrightarrow>
   service_id ops \<noteq> FWK_ID_NONE \<Longrightarrow>
     create_event_request env clock_id service req data clock_idx s = Some (FWK_E_BUSY, s)"
  by (simp add: create_event_request_def clock_ops_is_available_def)

lemma example_tables_init: "policy_tables_init example_setup = Some example_tables"
  by (simp add: policy_tables_init_def example_defs table_read_def table_write_def
        eval_nat_numeral)

lemma clock_ops_set_available_tables:
  "clock_ops_set_available i s = Some s' \<Longrightarrow> tables s' = tables s"
  by (auto simp: clock_ops_set_available_def split: Option.bind_splits)

lemma clock_ops_update_state_failed:
  "status \<noteq> FWK_SUCCESS \<Longrightarrow> clock_ops_update_state cf env i status s = Some s"
  by (simp add: clock_ops_update_state_def)

lemma failed_set_state_tables:
  assumes "event_id ev = SCMI_CLOCK_EVENT_IDX_SET_STATE"
      and "params_request_data ev = Set_State_Request_Data st"
      and "set_state env (params_clock_dev_id ev) st \<noteq> FWK_SUCCESS"
      and "process_request_event cf env ev s = Some (r, s')"
  shows "tables s' = tables s"
  using assms
  by (auto simp: process_request_event_def request_event_switch_def Let_def
        clock_ops_update_state_failed set_request_respond_def respond_def
        dest!: clock_ops_set_available_tables
        split: Option.bind_splits if_splits)

lemma failed_response_tables:
  assumes "params_status ev \<noteq> FWK_SUCCESS"
      and "process_response_event cf env ev s = Some (r, s')"
  shows "tables s' = tables s"
  using assms
  by (auto simp: process_response_event_def response_event_switch_def Let_def
        request_response_def respond_def
        dest!: clock_ops_set_available_tables
        split: Option.bind_splits if_splits)

lemma sync_get_failure_keeps_slot:
  assumes "table_read (clock_ops s) (fwk_id_get_element_idx (params_clock_dev_id ev)) = Some ops"
      and "event_id ev = SCMI_CLOCK_EVENT_IDX_GET_RATE"
      and "get_rate env (params_clock_dev_id ev) = (status, rate)"
      and "status \<noteq> FWK_SUCCESS" "status \<noteq> FWK_PENDING"
  shows "process_request_event cf env ev s =
           Some (status,
                 s\<lparr>responses := responses s @ [(service_id ops, Status_Only SCMI_GENERIC_ERROR)]\<rparr>)"
  using assms by (simp add: event_defs)

lemma sync_get_state_failure_keeps_slot:
  assumes "table_read (clock_ops s) (fwk_id_get_element_idx (params_clock_dev_id ev)) = Some ops"
      and "event_id ev = SCMI_CLOCK_EVENT_IDX_GET_STATE"
      and "get_state env (params_clock_dev_id ev) = (status, clock_state)"
      and "status \<noteq> FWK_SUCCESS" "status \<noteq> FWK_PENDING"
  shows "process_request_event cf env ev s =
           Some (status,
                 s\<lparr>responses := responses s @ [(service_id ops, Status_Only SCMI_GENERIC_ERROR)]\<rparr>)"
  using assms by (simp add: event_defs)

lemma sync_set_failure_releases_slot:
  assumes "table_read (clock_ops s) (fwk_id_get_element_idx (params_clock_dev_id ev)) = Some ops"
      and "event_id ev = SCMI_CLOCK_EVENT_IDX_SET_RATE"
      and "params_request_data ev = Set_Rate_Request_Data lo hi round_mode"
      and "set_rate env (params_clock_dev_id ev) (rate_of_words_add lo hi) round_mode = status"
      and "status \<noteq> FWK_PENDING"
      and "process_request_event cf env ev s = Some (r, s')"
  shows "r = FWK_SUCCESS \<and>
         clock_ops_is_available (fwk_id_get_element_idx (params_clock_dev_id ev)) s' = Some True"
  using assms by (auto simp: event_defs table_read_def split: if_splits)

lemma clock_ops_set_available_releases:
  "clock_ops_set_available i s = Some s' \<Longrightarrow> clock_ops_is_available i s' = Some True"
  by (auto simp: clock_ops_set_available_def clock_ops_is_available_def table_read_def
        split: Option.bind_splits if_splits)

lemma response_event_releases_slot:
  assumes "process_response_event cf env resp s = Some (FWK_SUCCESS, s')"
  shows "clock_ops_is_available (fwk_id_get_element_idx (source_id resp)) s' = Some True"
  using assms
  by (auto simp: process_response_event_def response_event_switch_def Let_def
        dest: clock_ops_set_available_releases
        split: Option.bind_splits sum.splits if_splits mod_clock_event_idx.splits
               mod_clock_resp_value.splits)

lemma sync_success_releases_slot:
  assumes "process_request_event cf env ev s = Some (FWK_SUCCESS, s')"
      and "event_id ev = SCMI_CLOCK_EVENT_IDX_GET_RATE"
      and "fst (get_rate env (params_clock_dev_id ev)) = FWK_SUCCESS"
  shows "clock_ops_is_available (fwk_id_get_element_idx (params_clock_dev_id ev)) s' = Some True"
  using assms
  by (auto simp: process_request_event_def request_event_switch_def Let_def
        dest: clock_ops_set_available_releases
        split: Option.bind_splits sum.splits prod.splits if_splits)

lemma policy_tables_of_defined:
  "mod_scmi_clock_config_set_policy cf env st pc service dev_id s = Some (r, s') \<Longrightarrow>
     \<exists>t. policy_tables_of cf s = Some t"
  by (auto simp: mod_scmi_clock_config_set_policy_def split: Option.bind_splits)

lemma policy_pre_tables_of:
  assumes "mod_scmi_clock_config_set_policy cf env st MOD_SCMI_CLOCK_PRE_MESSAGE_HANDLER
             service dev_id s = Some (r, s')"
  shows "policy_tables_of cf s' = policy_tables_of cf s"
proof -
  from policy_tables_of_defined [OF assms] obtain t where t: "policy_tables_of cf s = Some t" ..
  from policy_pre [OF assms] have "s' = s\<lparr>tables := Some t\<rparr>" by (simp add: t)
  then have "policy_tables_of cf s' = Some t" by (simp add: policy_tables_of_def)
  with t show ?thesis by simp
qed

lemma request_event_error:
  "request_event clock_id req data = Some (Inl status) \<Longrightarrow> status = FWK_E_PARAM"
  by (auto simp: request_event_def
        split: scmi_clock_request_type.splits event_request_data.splits)

lemma create_event_request_success:
  assumes "create_event_request env clock_id owner req data clock_idx s = Some (FWK_SUCCESS, s')"
  shows "\<exists>event st.
           request_event clock_id req data = Some (Inr (event, st)) \<and>
           event_queue s' = event_queue s @ [event] \<and>
           table_read (clock_ops s') (fwk_id_get_element_idx clock_id) =
             Some \<lparr>service_id = owner, state = st, clock_dev_id = clock_idx, request = req\<rparr> \<and>
           s' = s\<lparr>event_queue := event_queue s @ [event],
                  clock_ops := (clock_ops s)[fwk_id_get_element_idx clock_id :=
                    \<lparr>service_id = owner, state = st, clock_dev_id = clock_idx,
                     request = req\<rparr>]\<rparr>"
  using assms
  by (auto simp: create_event_request_def clock_ops_is_available_def clock_ops_set_busy_def
        table_read_def table_write_def Let_def
        dest: request_event_error
        split: Option.bind_splits sum.splits if_splits)

lemma create_event_request_keeps_owned:
  assumes "table_read (clock_ops s) i = Some ops" "service_id ops \<noteq> FWK_ID_NONE"
      and "create_event_request env clock_id service req data clock_idx s = Some (r, s')"
  shows "table_read (clock_ops s') i = Some ops"
  using assms
  by (auto simp: create_event_request_def clock_ops_is_available_def clock_ops_set_busy_def
        table_read_def table_write_def Let_def nth_list_update
        split: Option.bind_splits sum.splits if_splits)

lemma owned_slot_answers_busy:
  assumes slot: "table_read (clock_ops s) (fwk_id_get_element_idx (element_id dev)) = Some ops"
      and owned: "service_id ops \<noteq> FWK_ID_NONE"
  shows "create_event_request env (element_id dev) service req data clock_idx s =
           Some (FWK_E_BUSY, s) \<and>
         (get_clock_device_entry cf env service (unat (p 0)) = Inr (dev, agent) \<longrightarrow>
            scmi_clock_attributes_handler cf env service p s =
              Some (FWK_SUCCESS, s\<lparr>responses := responses s @ [(service, Status_Only SCMI_BUSY)]\<rparr>) \<and>
            scmi_clock_rate_get_handler cf env service p s =
              Some (FWK_SUCCESS, s\<lparr>responses := responses s @ [(service, Status_Only SCMI_BUSY)]\<rparr>)) \<and>
         (get_clock_device_entry cf env service (unat (p 1)) = Inr (dev, agent) \<and>
          p 0 AND NOT (SCMI_CLOCK_RATE_SET_FLAGS_MASK cf) = 0 \<and>
          p 0 AND SCMI_CLOCK_RATE_SET_ASYNC_MASK cf = 0 \<longrightarrow>
            scmi_clock_rate_set_handler cf env service p s =
              Some (FWK_SUCCESS, s\<lparr>responses := responses s @ [(service, Status_Only SCMI_BUSY)]\<rparr>)) \<and>
         (get_clock_device_entry cf env service (unat (p 0)) = Inr (dev, agent) \<and>
          p 1 AND NOT (SCMI_CLOCK_CONFIG_SET_ENABLE_MASK cf) = 0 \<and>
          mod_scmi_clock_config_set_policy cf env
            (if p 1 AND SCMI_CLOCK_CONFIG_SET_ENABLE_MASK cf \<noteq> 0 then MOD_CLOCK_STATE_RUNNING
             else MOD_CLOCK_STATE_STOPPED)
            MOD_SCMI_CLOCK_PRE_MESSAGE_HANDLER service (p 0) s =
            Some ((FWK_SUCCESS, MOD_SCMI_CLOCK_EXECUTE_MESSAGE_HANDLER), s1) \<longrightarrow>
            scmi_clock_config_set_handler cf env service p s =
              Some (FWK_SUCCESS,
                    s1\<lparr>responses := responses s1 @ [(service, Status_Only SCMI_BUSY)]\<rparr>) \<and>
            clock_ops s1 = clock_ops s \<and> event_queue s1 = event_queue s \<and>
            responses s1 = responses s)"
proof -
  have busy: "create_event_request env (element_id dev) sv rq dt ci s = Some (FWK_E_BUSY, s)"
    for sv rq dt ci
    using slot owned by (rule create_event_request_busy)
  have attr: "scmi_clock_attributes_handler cf env service p s =
                Some (FWK_SUCCESS, s\<lparr>responses := responses s @ [(service, Status_Only SCMI_BUSY)]\<rparr>)"
    if "get_clock_device_entry cf env service (unat (p 0)) = Inr (dev, agent)"
    using that by (simp add: scmi_clock_attributes_handler_def busy respond_def)
  have rget: "scmi_clock_rate_get_handler cf env service p s =
                Some (FWK_SUCCESS, s\<lparr>responses := responses s @ [(service, Status_Only SCMI_BUSY)]\<rparr>)"
    if "get_clock_device_entry cf env service (unat (p 0)) = Inr (dev, agent)"
    using that by (simp add: scmi_clock_rate_get_handler_def busy respond_def)
  have rset: "scmi_clock_rate_set_handler cf env service p s =
                Some (FWK_SUCCESS, s\<lparr>responses := responses s @ [(service, Status_Only SCMI_BUSY)]\<rparr>)"
    if "get_clock_device_entry cf env service (unat (p 1)) = Inr (dev, agent)"
       "p 0 AND NOT (SCMI_CLOCK_RATE_SET_FLAGS_MASK cf) = 0"
       "p 0 AND SCMI_CLOCK_RATE_SET_ASYNC_MASK cf = 0"
    using that lookup_agent_id_ok [OF that(1)]
    by (simp add: scmi_clock_rate_set_handler_def mod_scmi_clock_rate_set_policy_def busy
          respond_def)
  have cset: "scmi_clock_config_set_handler cf env service p s =
                Some (FWK_SUCCESS,
                      s1\<lparr>responses := responses s1 @ [(service, Status_Only SCMI_BUSY)]\<rparr>) \<and>
              clock_ops s1 = clock_ops s \<and> event_queue s1 = event_queue s \<and>
              responses s1 = responses s"
    if l: "get_clock_device_entry cf env service (unat (p 0)) = Inr (dev, agent)"
       and a: "p 1 AND NOT (SCMI_CLOCK_CONFIG_SET_ENABLE_MASK cf) = 0"
       and pol: "mod_scmi_clock_config_set_policy cf env
            (if p 1 AND SCMI_CLOCK_CONFIG_SET_ENABLE_MASK cf \<noteq> 0 then MOD_CLOCK_STATE_RUNNING
             else MOD_CLOCK_STATE_STOPPED)
            MOD_SCMI_CLOCK_PRE_MESSAGE_HANDLER service (p 0) s =
            Some ((FWK_SUCCESS, MOD_SCMI_CLOCK_EXECUTE_MESSAGE_HANDLER), s1)"
  proof -
    from policy_frame [OF pol] obtain t' where s1: "s1 = s\<lparr>tables := Some t'\<rparr>" ..
    have "table_read (clock_ops s1) (fwk_id_get_element_idx (element_id dev)) = Some ops"
      using slot by (simp add: s1)
    then have busy1: "create_event_request env (element_id dev) sv rq dt ci s1 =
                        Some (FWK_E_BUSY, s1)" for sv rq dt ci
      using owned by (rule create_event_request_busy)
    have "scmi_clock_config_set_handler cf env service p s =
            Some (FWK_SUCCESS,
                  s1\<lparr>responses := responses s1 @ [(service, Status_Only SCMI_BUSY)]\<rparr>)"
      using l a pol lookup_agent_id_ok [OF l]
      by (simp add: scmi_clock_config_set_handler_def busy1 respond_def)
    then show ?thesis
      by (simp add: s1)
  qed
  show ?thesis
    using busy attr rget rset cset by blast
qed

lemma describe_rates_loop_clock_ops:
  "describe_rates_loop env dev service index k i ps s = (r, ps', s') \<Longrightarrow>
     clock_ops s' = clock_ops s"
  by (induction k arbitrary: i ps s)
     (auto simp: write_block_def Let_def split: prod.splits if_splits)

lemma describe_rates_handler_clock_ops:
  "scmi_clock_describe_rates_handler cf env service p s = Some (r, s') \<Longrightarrow>
     clock_ops s' = clock_ops s"
  by (auto simp: scmi_clock_describe_rates_handler_def describe_rates_finish_def write_block_def
        respond_def Let_def
        dest: describe_rates_loop_clock_ops
        split: sum.splits prod.splits if_splits)

lemma attributes_handler_keeps_owned:
  assumes "table_read (clock_ops s) i = Some ops" "service_id ops \<noteq> FWK_ID_NONE"
      and "scmi_clock_attributes_handler cf env service p s = Some (r, s')"
  shows "table_read (clock_ops s') i = Some ops"
  using assms
  by (auto simp: scmi_clock_attributes_handler_def respond_def Let_def
        dest: create_event_request_keeps_owned
        split: sum.splits prod.splits if_splits Option.bind_splits)

lemma rate_get_handler_keeps_owned:
  assumes "table_read (clock_ops s) i = Some ops" "service_id ops \<noteq> FWK_ID_NONE"
      and "scmi_clock_rate_get_handler cf env service p s = Some (r, s')"
  shows "table_read (clock_ops s') i = Some ops"
  using assms
  by (auto simp: scmi_clock_rate_get_handler_def respond_def Let_def
        dest: create_event_request_keeps_owned
        split: sum.splits prod.splits if_splits Option.bind_splits)

lemma rate_set_handler_keeps_owned:
  assumes "table_read (clock_ops s) i = Some ops" "service_id ops \<noteq> FWK_ID_NONE"
      and "scmi_clock_rate_set_handler cf env service p s = Some (r, s')"
  shows "table_read (clock_ops s') i = Some ops"
  using assms
  by (auto simp: scmi_clock_rate_set_handler_def mod_scmi_clock_rate_set_policy_def respond_def
        Let_def
        dest: create_event_request_keeps_owned
        split: sum.splits prod.splits if_splits Option.bind_splits)

lemma config_set_handler_keeps_owned:
  assumes "table_read (clock_ops s) i = Some ops" "service_id ops \<noteq> FWK_ID_NONE"
      and "scmi_clock_config_set_handler cf env service p s = Some (r, s')"
  shows "table_read (clock_ops s') i = Some ops"
proof -
  have pol: "table_read (clock_ops sa) i = Some ops"
    if "mod_scmi_clock_config_set_policy cf env st pc service dev_id s = Some (ra, sa)"
    for st pc dev_id ra sa
    using policy_frame [OF that] assms(1) by auto
  show ?thesis
    using assms
    by (auto simp: scmi_clock_config_set_handler_def respond_def Let_def
          dest!: pol
          dest: create_event_request_keeps_owned
          split: sum.splits prod.splits if_splits Option.bind_splits)
qed

lemma message_handler_keeps_owned:
  assumes slot: "table_read (clock_ops s) i = Some ops" "service_id ops \<noteq> FWK_ID_NONE"
      and run: "scmi_clock_message_handler cf env service p payload_size message_id s =
                  Some (r, s')"
  shows "table_read (clock_ops s') i = Some ops"
proof (cases "message_id < handler_table_size \<and> payload_size = payload_size_table ! message_id \<and>
              \<not> (build_has_mod_resource_perms cf \<and>
                 scmi_clock_permissions_handler env service p payload_size message_id \<noteq>
                   FWK_SUCCESS)")
  case False
  then have "clock_ops s' = clock_ops s"
    using run
    by (auto simp: scmi_clock_message_handler_def message_handler_with_def handler_table_def
          handler_table_size_def respond_def split: if_splits)
  then show ?thesis using slot by simp
next
  case True
  then have h: "(handler_table ! message_id) cf env service p s = Some (r, s')"
    using run
    by (auto simp: scmi_clock_message_handler_def message_handler_with_def
          handler_table_size_def length_Suc_conv handler_table_def split: if_splits)
  from True have "message_id = 0 \<or> message_id = 1 \<or> message_id = 2 \<or> message_id = 3 \<or>
                  message_id = 4 \<or> message_id = 5 \<or> message_id = 6 \<or> message_id = 7"
    by (auto simp: handler_table_size_def)
  then consider
      (plain) "clock_ops s' = clock_ops s"
    | (attributes) "scmi_clock_attributes_handler cf env service p s = Some (r, s')"
    | (rate_set) "scmi_clock_rate_set_handler cf env service p s = Some (r, s')"
    | (rate_get) "scmi_clock_rate_get_handler cf env service p s = Some (r, s')"
    | (config_set) "scmi_clock_config_set_handler cf env service p s = Some (r, s')"
    | (describe) "scmi_clock_describe_rates_handler cf env service p s = Some (r, s')"
    using h
    by (auto simp: handler_table_def scmi_clock_protocol_version_handler_def
          scmi_clock_protocol_attributes_handler_def
          scmi_clock_protocol_message_attributes_handler_def respond_def Let_def
          split: sum.splits if_splits)
  then show ?thesis
  proof cases
    case plain
    then show ?thesis using slot by simp
  next
    case attributes
    then show ?thesis by (rule attributes_handler_keeps_owned [OF slot])
  next
    case rate_set
    then show ?thesis by (rule rate_set_handler_keeps_owned [OF slot])
  next
    case rate_get
    then show ?thesis by (rule rate_get_handler_keeps_owned [OF slot])
  next
    case config_set
    then show ?thesis by (rule config_set_handler_keeps_owned [OF slot])
  next
    case describe
    then show ?thesis using slot describe_rates_handler_clock_ops by fastforce
  qed
qed


section \<open>The request tracker\<close>

text \<open>
  Claim C2, as amended. A clock device has one operation slot, so at most one operation is
  outstanding on it. A successful claim queues its event and records the owner, the state
  and the request kind in the slot, which is then busy: a further attempt to claim it
  returns \<^verbatim>\<open>FWK_E_BUSY\<close> and leaves the whole module state as it was. The same holds for
  any owned slot, and a request that reaches the claim attempt is answered Busy, the state
  changing by that response only: ClockAttributes and ClockRateGet for a clock the agent
  sees, ClockRateSet with known flags and the asynchronous bit clear, ClockConfigSet with
  valid attributes when the pre-dispatch policy call signals execute (that call touches
  neither the slots nor the queue). Whatever message the dispatcher is handed, and
  whatever its answer, the record of an owned slot stays as the first claim wrote it.
\<close>

theorem busy_slot_rejects_second_request:
  "(create_event_request env clock_id owner first_req first_data first_idx s0 =
      Some (FWK_SUCCESS, s) \<and> owner \<noteq> FWK_ID_NONE \<longrightarrow>
      (\<exists>event st.
          request_event clock_id first_req first_data = Some (Inr (event, st)) \<and>
          event_queue s = event_queue s0 @ [event] \<and>
          table_read (clock_ops s) (fwk_id_get_element_idx clock_id) =
            Some \<lparr>service_id = owner, state = st, clock_dev_id = first_idx,
                  request = first_req\<rparr>) \<and>
      clock_ops_is_available (fwk_id_get_element_idx clock_id) s = Some False \<and>
      create_event_request env clock_id service req data clock_idx s = Some (FWK_E_BUSY, s)) \<and>
   (table_read (clock_ops s) (fwk_id_get_element_idx (element_id dev)) = Some ops \<and>
    service_id ops \<noteq> FWK_ID_NONE \<longrightarrow>
      create_event_request env (element_id dev) service req data clock_idx s =
        Some (FWK_E_BUSY, s) \<and>
      (get_clock_device_entry cf env service (unat (p 0)) = Inr (dev, agent) \<longrightarrow>
         scmi_clock_attributes_handler cf env service p s =
           Some (FWK_SUCCESS, s\<lparr>responses := responses s @ [(service, Status_Only SCMI_BUSY)]\<rparr>) \<and>
         scmi_clock_rate_get_handler cf env service p s =
           Some (FWK_SUCCESS, s\<lparr>responses := responses s @ [(service, Status_Only SCMI_BUSY)]\<rparr>)) \<and>
      (get_clock_device_entry cf env service (unat (p 1)) = Inr (dev, agent) \<and>
       p 0 AND NOT (SCMI_CLOCK_RATE_SET_FLAGS_MASK cf) = 0 \<and>
       p 0 AND SCMI_CLOCK_RATE_SET_ASYNC_MASK cf = 0 \<longrightarrow>
         scmi_clock_rate_set_handler cf env service p s =
           Some (FWK_SUCCESS, s\<lparr>responses := responses s @ [(service, Status_Only SCMI_BUSY)]\<rparr>)) \<and>
      (get_clock_device_entry cf env service (unat (p 0)) = Inr (dev, agent) \<and>
       p 1 AND NOT (SCMI_CLOCK_CONFIG_SET_ENABLE_MASK cf) = 0 \<and>
       mod_scmi_clock_config_set_policy cf env
         (if p 1 AND SCMI_CLOCK_CONFIG_SET_ENABLE_MASK cf \<noteq> 0 then MOD_CLOCK_STATE_RUNNING
          else MOD_CLOCK_STATE_STOPPED)
         MOD_SCMI_CLOCK_PRE_MESSAGE_HANDLER service (p 0) s =
         Some ((FWK_SUCCESS, MOD_SCMI_CLOCK_EXECUTE_MESSAGE_HANDLER), sp) \<longrightarrow>
         scmi_clock_config_set_handler cf env service p s =
           Some (FWK_SUCCESS,
                 sp\<lparr>responses := responses sp @ [(service, Status_Only SCMI_BUSY)]\<rparr>) \<and>
         clock_ops sp = clock_ops s \<and> event_queue sp = event_queue s \<and>
         responses sp = responses s) \<and>
      (scmi_clock_message_handler cf env service p payload_size message_id s = Some (r, s') \<longrightarrow>
         table_read (clock_ops s') (fwk_id_get_element_idx (element_id dev)) = Some ops))"
proof -
  have first: "(\<exists>event st.
          request_event clock_id first_req first_data = Some (Inr (event, st)) \<and>
          event_queue s = event_queue s0 @ [event] \<and>
          table_read (clock_ops s) (fwk_id_get_element_idx clock_id) =
            Some \<lparr>service_id = owner, state = st, clock_dev_id = first_idx,
                  request = first_req\<rparr>) \<and>
      clock_ops_is_available (fwk_id_get_element_idx clock_id) s = Some False \<and>
      create_event_request env clock_id service req data clock_idx s = Some (FWK_E_BUSY, s)"
    if a: "create_event_request env clock_id owner first_req first_data first_idx s0 =
             Some (FWK_SUCCESS, s) \<and> owner \<noteq> FWK_ID_NONE"
  proof -
    from create_event_request_success [OF a [THEN conjunct1]]
    obtain event st where e:
      "request_event clock_id first_req first_data = Some (Inr (event, st))"
      "event_queue s = event_queue s0 @ [event]"
      "table_read (clock_ops s) (fwk_id_get_element_idx clock_id) =
         Some \<lparr>service_id = owner, state = st, clock_dev_id = first_idx, request = first_req\<rparr>"
      by blast
    have owned: "service_id \<lparr>service_id = owner, state = st, clock_dev_id = first_idx,
                   request = first_req\<rparr> \<noteq> FWK_ID_NONE"
      using a by simp
    have "clock_ops_is_available (fwk_id_get_element_idx clock_id) s = Some False"
      using e(3) a by (simp add: clock_ops_is_available_def)
    moreover have "create_event_request env clock_id service req data clock_idx s =
                     Some (FWK_E_BUSY, s)"
      using e(3) owned by (rule create_event_request_busy)
    ultimately show ?thesis using e by blast
  qed
  have second:
     "create_event_request env (element_id dev) service req data clock_idx s =
        Some (FWK_E_BUSY, s) \<and>
      (get_clock_device_entry cf env service (unat (p 0)) = Inr (dev, agent) \<longrightarrow>
         scmi_clock_attributes_handler cf env service p s =
           Some (FWK_SUCCESS, s\<lparr>responses := responses s @ [(service, Status_Only SCMI_BUSY)]\<rparr>) \<and>
         scmi_clock_rate_get_handler cf env service p s =
           Some (FWK_SUCCESS, s\<lparr>responses := responses s @ [(service, Status_Only SCMI_BUSY)]\<rparr>)) \<and>
      (get_clock_device_entry cf env service (unat (p 1)) = Inr (dev, agent) \<and>
       p 0 AND NOT (SCMI_CLOCK_RATE_SET_FLAGS_MASK cf) = 0 \<and>
       p 0 AND SCMI_CLOCK_RATE_SET_ASYNC_MASK cf = 0 \<longrightarrow>
         scmi_clock_rate_set_handler cf env service p s =
           Some (FWK_SUCCESS, s\<lparr>responses := responses s @ [(service, Status_Only SCMI_BUSY)]\<rparr>)) \<and>
      (get_clock_device_entry cf env service (unat (p 0)) = Inr (dev, agent) \<and>
       p 1 AND NOT (SCMI_CLOCK_CONFIG_SET_ENABLE_MASK cf) = 0 \<and>
       mod_scmi_clock_config_set_policy cf env
         (if p 1 AND SCMI_CLOCK_CONFIG_SET_ENABLE_MASK cf \<noteq> 0 then MOD_CLOCK_STATE_RUNNING
          else MOD_CLOCK_STATE_STOPPED)
         MOD_SCMI_CLOCK_PRE_MESSAGE_HANDLER service (p 0) s =
         Some ((FWK_SUCCESS, MOD_SCMI_CLOCK_EXECUTE_MESSAGE_HANDLER), sp) \<longrightarrow>
         scmi_clock_config_set_handler cf env service p s =
           Some (FWK_SUCCESS,
                 sp\<lparr>responses := responses sp @ [(service, Status_Only SCMI_BUSY)]\<rparr>) \<and>
         clock_ops sp = clock_ops s \<and> event_queue sp = event_queue s \<and>
         responses sp = responses s) \<and>
      (scmi_clock_message_handler cf env service p payload_size message_id s = Some (r, s') \<longrightarrow>
         table_read (clock_ops s') (fwk_id_get_element_idx (element_id dev)) = Some ops)"
    if b: "table_read (clock_ops s) (fwk_id_get_element_idx (element_id dev)) = Some ops \<and>
           service_id ops \<noteq> FWK_ID_NONE"
  proof -
    note slot = b [THEN conjunct1] and owned = b [THEN conjunct2]
    note H = owned_slot_answers_busy [OF slot owned, of env service req data clock_idx cf p
               agent sp]
    have K: "table_read (clock_ops s') (fwk_id_get_element_idx (element_id dev)) = Some ops"
      if "scmi_clock_message_handler cf env service p payload_size message_id s = Some (r, s')"
      using that by (rule message_handler_keeps_owned [OF slot owned])
    from H K show ?thesis by blast
  qed
  show ?thesis
    by (rule conjI; rule impI; (erule first | erule second))
qed

theorem busy_slot_rejects_second_request_witness:
  "create_event_request example_env (FWK_ID_ELEMENT 2 0) (FWK_ID_ELEMENT 1 1)
     SCMI_CLOCK_REQUEST_GET_STATE No_Request_Data 0 example_idle_state =
     Some (FWK_SUCCESS, example_busy_state) \<and>
   clock_ops_is_available 0 example_busy_state = Some False \<and>
   create_event_request example_env (FWK_ID_ELEMENT 2 0) (FWK_ID_ELEMENT 1 0)
     SCMI_CLOCK_REQUEST_GET_RATE No_Request_Data 0 example_busy_state =
     Some (FWK_E_BUSY, example_busy_state) \<and>
   scmi_clock_attributes_handler example_setup example_env (FWK_ID_ELEMENT 1 0)
     (words [0, 0, 0, 0]) example_busy_state =
     Some (FWK_SUCCESS,
           example_busy_state\<lparr>responses := [(FWK_ID_ELEMENT 1 0, Status_Only SCMI_BUSY)]\<rparr>) \<and>
   scmi_clock_rate_get_handler example_setup example_env (FWK_ID_ELEMENT 1 0)
     (words [0, 0, 0, 0]) example_busy_state =
     Some (FWK_SUCCESS,
           example_busy_state\<lparr>responses := [(FWK_ID_ELEMENT 1 0, Status_Only SCMI_BUSY)]\<rparr>) \<and>
   scmi_clock_rate_set_handler example_setup example_env (FWK_ID_ELEMENT 1 0)
     (words [0, 0, 0, 0]) example_busy_state =
     Some (FWK_SUCCESS,
           example_busy_state\<lparr>responses := [(FWK_ID_ELEMENT 1 0, Status_Only SCMI_BUSY)]\<rparr>) \<and>
   scmi_clock_config_set_handler example_setup example_env (FWK_ID_ELEMENT 1 0)
     (words [0, 0, 0, 0]) example_busy_state =
     Some (FWK_SUCCESS,
           example_busy_state\<lparr>responses := [(FWK_ID_ELEMENT 1 0, Status_Only SCMI_BUSY)]\<rparr>) \<and>
   scmi_clock_message_handler example_setup example_env (FWK_ID_ELEMENT 1 0) (words [0, 1]) 8 7
     example_busy_state =
     Some (FWK_SUCCESS,
           example_busy_state\<lparr>responses := [(FWK_ID_ELEMENT 1 0, Status_Only SCMI_SUCCESS)]\<rparr>) \<and>
   table_read
     (clock_ops
        (example_busy_state\<lparr>responses := [(FWK_ID_ELEMENT 1 0, Status_Only SCMI_SUCCESS)]\<rparr>)) 0 =
     Some \<lparr>service_id = FWK_ID_ELEMENT 1 1, state = MOD_CLOCK_STATE_COUNT, clock_dev_id = 0,
           request = SCMI_CLOCK_REQUEST_GET_STATE\<rparr>"
proof -
  let ?dev = "\<lparr>element_id = FWK_ID_ELEMENT 2 0, starts_enabled = True\<rparr>"
  let ?ops = "\<lparr>service_id = FWK_ID_ELEMENT 1 1, state = MOD_CLOCK_STATE_COUNT, clock_dev_id = 0,
              request = SCMI_CLOCK_REQUEST_GET_STATE\<rparr>"
  let ?p = "words [0, 0, 0, 0]"
  let ?answered = "example_busy_state
                     \<lparr>responses := [(FWK_ID_ELEMENT 1 0, Status_Only SCMI_SUCCESS)]\<rparr>"
  note T = busy_slot_rejects_second_request
  have claim: "create_event_request example_env (FWK_ID_ELEMENT 2 0) (FWK_ID_ELEMENT 1 1)
                 SCMI_CLOCK_REQUEST_GET_STATE No_Request_Data 0 example_idle_state =
               Some (FWK_SUCCESS, example_busy_state) \<and> FWK_ID_ELEMENT 1 1 \<noteq> FWK_ID_NONE"
    by (simp add: example_defs event_defs table_read_def table_write_def numeral_2_eq_2)
  have slot: "table_read (clock_ops example_busy_state)
                (fwk_id_get_element_idx (element_id ?dev)) = Some ?ops \<and>
              service_id ?ops \<noteq> FWK_ID_NONE"
    by (simp add: example_busy_state_def table_read_def)
  have l0: "get_clock_device_entry example_setup example_env (FWK_ID_ELEMENT 1 0) (unat (?p 0))
              = Inr (?dev, example_agent0)"
    by (simp add: example_defs lookup_defs)
  have l1: "get_clock_device_entry example_setup example_env (FWK_ID_ELEMENT 1 0) (unat (?p 1))
              = Inr (?dev, example_agent0)"
    by (simp add: example_defs lookup_defs)
  have flags: "?p 0 AND NOT (SCMI_CLOCK_RATE_SET_FLAGS_MASK example_setup) = 0"
              "?p 0 AND SCMI_CLOCK_RATE_SET_ASYNC_MASK example_setup = 0"
              "?p 1 AND NOT (SCMI_CLOCK_CONFIG_SET_ENABLE_MASK example_setup) = 0"
    by (simp_all add: example_defs)
  have pol: "mod_scmi_clock_config_set_policy example_setup example_env
               (if ?p 1 AND SCMI_CLOCK_CONFIG_SET_ENABLE_MASK example_setup \<noteq> 0
                then MOD_CLOCK_STATE_RUNNING else MOD_CLOCK_STATE_STOPPED)
               MOD_SCMI_CLOCK_PRE_MESSAGE_HANDLER (FWK_ID_ELEMENT 1 0) (?p 0) example_busy_state =
             Some ((FWK_SUCCESS, MOD_SCMI_CLOCK_EXECUTE_MESSAGE_HANDLER), example_busy_state)"
    by (simp add: mod_scmi_clock_config_set_policy_def policy_tables_of_def example_defs
          lookup_defs)
  have disp: "scmi_clock_message_handler example_setup example_env (FWK_ID_ELEMENT 1 0)
                (words [0, 1]) 8 7 example_busy_state = Some (FWK_SUCCESS, ?answered)"
    by (simp add: scmi_clock_message_handler_def message_handler_with_def handler_table_def
          payload_size_table_def scmi_clock_config_set_handler_def
          mod_scmi_clock_config_set_policy_def policy_tables_of_def example_defs lookup_defs
          respond_def)
  have a: "clock_ops_is_available 0 example_busy_state = Some False \<and>
           create_event_request example_env (FWK_ID_ELEMENT 2 0) (FWK_ID_ELEMENT 1 0)
             SCMI_CLOCK_REQUEST_GET_RATE No_Request_Data 0 example_busy_state =
             Some (FWK_E_BUSY, example_busy_state)"
    using T [where env = example_env and clock_id = "FWK_ID_ELEMENT 2 0"
            and owner = "FWK_ID_ELEMENT 1 1" and first_req = SCMI_CLOCK_REQUEST_GET_STATE
            and first_data = No_Request_Data and first_idx = 0 and ?s0.0 = example_idle_state
            and s = example_busy_state and service = "FWK_ID_ELEMENT 1 0"
            and req = SCMI_CLOCK_REQUEST_GET_RATE and data = No_Request_Data and clock_idx = 0,
            THEN conjunct1, rule_format, OF claim]
    by simp
  note B = T [where env = example_env and s = example_busy_state and dev = ?dev
            and ops = ?ops and service = "FWK_ID_ELEMENT 1 0" and cf = example_setup
            and agent = example_agent0 and sp = example_busy_state,
            THEN conjunct2, rule_format, OF slot]
  have b: "scmi_clock_attributes_handler example_setup example_env (FWK_ID_ELEMENT 1 0) ?p
             example_busy_state =
             Some (FWK_SUCCESS,
                   example_busy_state
                     \<lparr>responses := [(FWK_ID_ELEMENT 1 0, Status_Only SCMI_BUSY)]\<rparr>) \<and>
           scmi_clock_rate_get_handler example_setup example_env (FWK_ID_ELEMENT 1 0) ?p
             example_busy_state =
             Some (FWK_SUCCESS,
                   example_busy_state
                     \<lparr>responses := [(FWK_ID_ELEMENT 1 0, Status_Only SCMI_BUSY)]\<rparr>) \<and>
           scmi_clock_rate_set_handler example_setup example_env (FWK_ID_ELEMENT 1 0) ?p
             example_busy_state =
             Some (FWK_SUCCESS,
                   example_busy_state
                     \<lparr>responses := [(FWK_ID_ELEMENT 1 0, Status_Only SCMI_BUSY)]\<rparr>) \<and>
           scmi_clock_config_set_handler example_setup example_env (FWK_ID_ELEMENT 1 0) ?p
             example_busy_state =
             Some (FWK_SUCCESS,
                   example_busy_state
                     \<lparr>responses := [(FWK_ID_ELEMENT 1 0, Status_Only SCMI_BUSY)]\<rparr>)"
    using B [where p = ?p] l0 l1 flags pol
    by (simp add: example_busy_state_def)
  have c: "table_read (clock_ops ?answered) 0 = Some ?ops"
    using B [where p = "words [0, 1]" and payload_size = 8 and message_id = 7
            and r = FWK_SUCCESS and s' = ?answered] disp
    by simp
  from claim a b c disp show ?thesis by simp
qed

text \<open>
  As stated, C2 has every request that arrives while the slot is owned answered Busy. On
  the example platform agent 1 owns the slot of clock 0. Agent 0 asks to enable that
  clock, which it already holds running: the policy signals skip before the claim is
  attempted, and the answer is Success. Agent 0 asks for an asynchronous rate change of
  that clock: the answer is NotSupported, again before the claim is attempted.
\<close>

theorem busy_slot_request_not_busy_counterexample:
  "clock_ops_is_available 0 example_busy_state = Some False \<and>
   get_clock_device_entry example_setup example_env (FWK_ID_ELEMENT 1 0) 0 =
     Inr (\<lparr>element_id = FWK_ID_ELEMENT 2 0, starts_enabled = True\<rparr>, example_agent0) \<and>
   scmi_clock_config_set_handler example_setup example_env (FWK_ID_ELEMENT 1 0) (words [0, 1])
     example_busy_state =
     Some (FWK_SUCCESS,
           example_busy_state\<lparr>responses := [(FWK_ID_ELEMENT 1 0, Status_Only SCMI_SUCCESS)]\<rparr>) \<and>
   scmi_clock_rate_set_handler example_setup example_env (FWK_ID_ELEMENT 1 0)
     (words [1, 0, 0, 0]) example_busy_state =
     Some (FWK_SUCCESS,
           example_busy_state
             \<lparr>responses := [(FWK_ID_ELEMENT 1 0, Status_Only SCMI_NOT_SUPPORTED)]\<rparr>)"
  by (simp add: scmi_clock_config_set_handler_def scmi_clock_rate_set_handler_def
        mod_scmi_clock_config_set_policy_def policy_tables_of_def
        SCMI_CLOCK_RATE_SET_FLAGS_MASK_def clock_ops_is_available_def example_defs lookup_defs
        respond_def)

text \<open>
  Claim C1 asks that every claim of a slot be released on every terminal outcome. The
  source misses one: a rate or state query that the clock HAL fails at once. On the
  example platform agent 0 asks for the rate of clock 0; the handler claims the slot and
  queues the request. The HAL fails \<^verbatim>\<open>get_rate\<close>, so the request event answers
  GenericError and returns the failure, and the slot stays owned: the next request for
  that clock, from agent 1, is answered Busy. (The set paths reset the status before the
  test that releases the slot, see \<open>sync_set_failure_releases_slot\<close>; the get paths do not,
  see \<open>sync_get_failure_keeps_slot\<close> and \<open>sync_get_state_failure_keeps_slot\<close>. A
  synchronous success and a completion event do release the slot, see
  \<open>sync_success_releases_slot\<close> and \<open>response_event_releases_slot\<close>.)
\<close>

theorem get_rate_failure_leaves_slot_busy:
  "scmi_clock_rate_get_handler example_setup example_env (FWK_ID_ELEMENT 1 0) (words [0])
     (scmi_clock_init 2) = Some (FWK_SUCCESS, example_rate_claimed) \<and>
   process_request_event example_setup example_env
     \<lparr>event_id = SCMI_CLOCK_EVENT_IDX_GET_RATE, params_clock_dev_id = FWK_ID_ELEMENT 2 0,
      params_request_data = No_Request_Data\<rparr> example_rate_claimed =
     Some (FWK_E_DEVICE,
           example_rate_claimed
             \<lparr>responses := [(FWK_ID_ELEMENT 1 0, Status_Only SCMI_GENERIC_ERROR)]\<rparr>) \<and>
   clock_ops_is_available 0
     (example_rate_claimed
        \<lparr>responses := [(FWK_ID_ELEMENT 1 0, Status_Only SCMI_GENERIC_ERROR)]\<rparr>) = Some False \<and>
   scmi_clock_rate_get_handler example_setup example_env (FWK_ID_ELEMENT 1 1) (words [0])
     (example_rate_claimed
        \<lparr>responses := [(FWK_ID_ELEMENT 1 0, Status_Only SCMI_GENERIC_ERROR)]\<rparr>) =
     Some (FWK_SUCCESS,
           example_rate_claimed
             \<lparr>responses := [(FWK_ID_ELEMENT 1 0, Status_Only SCMI_GENERIC_ERROR),
                            (FWK_ID_ELEMENT 1 1, Status_Only SCMI_BUSY)]\<rparr>)"
  by (simp add: scmi_clock_rate_get_handler_def example_rate_claimed_def example_defs lookup_defs
        event_defs numeral_2_eq_2)

section \<open>The default state-set policy\<close>




text \<open>
  Claim C8. An agent repeats a ClockConfigSet request whose state (RUNNING for enable,
  STOPPED for disable) is the one the table holds for it: the policy returns success with
  the skip signal, and the handler answers Success. The state after the handler differs
  from the one before in that response only, so no count changed and no hardware request
  was queued.
\<close>

theorem repeated_config_set_is_idempotent:
  assumes agent: "get_agent_id env service = (FWK_SUCCESS, agent_id)"
                 "agent_id < agent_count (config cf)"
      and clock: "unat (p 0) < device_count (agent_table (config cf) ! agent_id)"
      and attrs: "p 1 AND NOT (SCMI_CLOCK_CONFIG_SET_ENABLE_MASK cf) = 0"
      and tabs: "tables s = Some t"
                "agent_id * clock_devices cf + unat (p 0) < length (agent_clock_state t)"
      and committed:
        "agent_clock_state t ! (agent_id * clock_devices cf + unat (p 0)) = state_u8 requested"
      and requested:
        "requested = (if p 1 AND SCMI_CLOCK_CONFIG_SET_ENABLE_MASK cf \<noteq> 0
                      then MOD_CLOCK_STATE_RUNNING else MOD_CLOCK_STATE_STOPPED)"
  shows "mod_scmi_clock_config_set_policy cf env requested MOD_SCMI_CLOCK_PRE_MESSAGE_HANDLER
           service (p 0) s =
           Some ((FWK_SUCCESS, MOD_SCMI_CLOCK_SKIP_MESSAGE_HANDLER), s) \<and>
         scmi_clock_config_set_handler cf env service p s =
           Some (FWK_SUCCESS,
                 s\<lparr>responses := responses s @ [(service, Status_Only SCMI_SUCCESS)]\<rparr>)"
proof -
  have pol: "mod_scmi_clock_config_set_policy cf env requested
               MOD_SCMI_CLOCK_PRE_MESSAGE_HANDLER service (p 0) s =
             Some ((FWK_SUCCESS, MOD_SCMI_CLOCK_SKIP_MESSAGE_HANDLER), s)"
    using tabs committed requested
    by (simp add: mod_scmi_clock_config_set_policy_def policy_tables_of_def
          get_agent_clock_state_ok [OF agent clock])
  have "scmi_clock_config_set_handler cf env service p s =
          Some (FWK_SUCCESS,
                s\<lparr>responses := responses s @ [(service, Status_Only SCMI_SUCCESS)]\<rparr>)"
    using attrs pol agent(1) requested
    by (simp add: scmi_clock_config_set_handler_def get_clock_device_entry_ok [OF agent clock]
          respond_def)
  with pol show ?thesis by simp
qed

theorem repeated_config_set_is_idempotent_witness:
  "scmi_clock_config_set_handler example_setup example_env (FWK_ID_ELEMENT 1 0) (words [0, 1])
     example_idle_state =
     Some (FWK_SUCCESS,
           example_idle_state\<lparr>responses := [(FWK_ID_ELEMENT 1 0, Status_Only SCMI_SUCCESS)]\<rparr>) \<and>
   scmi_clock_config_set_handler example_setup example_env (FWK_ID_ELEMENT 1 1) (words [0, 0])
     example_idle_state =
     Some (FWK_SUCCESS,
           example_idle_state\<lparr>responses := [(FWK_ID_ELEMENT 1 1, Status_Only SCMI_SUCCESS)]\<rparr>)"
  using repeated_config_set_is_idempotent [of example_env "FWK_ID_ELEMENT 1 0" 0 example_setup
          "words [0, 1]" example_idle_state example_tables MOD_CLOCK_STATE_RUNNING]
        repeated_config_set_is_idempotent [of example_env "FWK_ID_ELEMENT 1 1" 1 example_setup
          "words [0, 0]" example_idle_state example_tables MOD_CLOCK_STATE_STOPPED]
  by (simp add: example_defs)

text \<open>
  Claim C5. The two tables are function-local statics that only the policy reads; a call
  works on the tables that exist or, when it is the first call ever, on the tables seeded
  from \<^verbatim>\<open>starts_enabled\<close> (\<open>policy_tables_of\<close>). A pre-dispatch call leaves these tables
  exactly as they were, the first call included: it changes nothing in the module state
  but, on the first call, the materialisation of the seeded tables (and it does return
  when its indices are within the tables, see \<open>policy_pre_returns\<close>). A hardware call that
  fails never reaches the policy: \<^verbatim>\<open>clock_ops_update_state\<close> does nothing for a status other
  than success, and neither the synchronous failure of a state-set request nor a
  completion event carrying a failure changes the tables. Writes are left to the
  post-completion phase.
\<close>

theorem pre_dispatch_leaves_tables:
  "(mod_scmi_clock_config_set_policy cf env st MOD_SCMI_CLOCK_PRE_MESSAGE_HANDLER service dev_id s
      = Some (r, s') \<longrightarrow>
      policy_tables_of cf s' = policy_tables_of cf s \<and>
      s' = s\<lparr>tables := policy_tables_of cf s\<rparr> \<and> (tables s \<noteq> None \<longrightarrow> s' = s)) \<and>
   (status \<noteq> FWK_SUCCESS \<longrightarrow> clock_ops_update_state cf env clock_dev_idx status s = Some s) \<and>
   (event_id ev = SCMI_CLOCK_EVENT_IDX_SET_STATE \<and>
    params_request_data ev = Set_State_Request_Data st \<and>
    set_state env (params_clock_dev_id ev) st \<noteq> FWK_SUCCESS \<and>
    process_request_event cf env ev s = Some (ra, sa) \<longrightarrow>
      tables sa = tables s \<and> policy_tables_of cf sa = policy_tables_of cf s) \<and>
   (params_status resp \<noteq> FWK_SUCCESS \<and>
    process_response_event cf env resp s = Some (rb, sb) \<longrightarrow>
      tables sb = tables s \<and> policy_tables_of cf sb = policy_tables_of cf s)"
proof -
  have pre: "policy_tables_of cf s' = policy_tables_of cf s \<and>
             s' = s\<lparr>tables := policy_tables_of cf s\<rparr> \<and> (tables s \<noteq> None \<longrightarrow> s' = s)"
    if "mod_scmi_clock_config_set_policy cf env st MOD_SCMI_CLOCK_PRE_MESSAGE_HANDLER service
          dev_id s = Some (r, s')"
    using policy_pre [OF that] policy_pre_tables_of [OF that]
    by (auto simp: policy_tables_of_def)
  have req: "tables sa = tables s \<and> policy_tables_of cf sa = policy_tables_of cf s"
    if "event_id ev = SCMI_CLOCK_EVENT_IDX_SET_STATE"
       "params_request_data ev = Set_State_Request_Data st"
       "set_state env (params_clock_dev_id ev) st \<noteq> FWK_SUCCESS"
       "process_request_event cf env ev s = Some (ra, sa)"
    using failed_set_state_tables [OF that] by (simp add: policy_tables_of_def)
  have rsp: "tables sb = tables s \<and> policy_tables_of cf sb = policy_tables_of cf s"
    if "params_status resp \<noteq> FWK_SUCCESS"
       "process_response_event cf env resp s = Some (rb, sb)"
    using failed_response_tables [OF that] by (simp add: policy_tables_of_def)
  from pre req rsp show ?thesis
    using clock_ops_update_state_failed by blast
qed

theorem pre_dispatch_leaves_tables_witness:
  "mod_scmi_clock_config_set_policy example_setup example_env MOD_CLOCK_STATE_STOPPED
     MOD_SCMI_CLOCK_PRE_MESSAGE_HANDLER (FWK_ID_ELEMENT 1 0) 0 example_idle_state =
     Some ((FWK_SUCCESS, MOD_SCMI_CLOCK_EXECUTE_MESSAGE_HANDLER), example_idle_state) \<and>
   mod_scmi_clock_config_set_policy example_setup example_env MOD_CLOCK_STATE_STOPPED
     MOD_SCMI_CLOCK_PRE_MESSAGE_HANDLER (FWK_ID_ELEMENT 1 0) 0 (scmi_clock_init 2) =
     Some ((FWK_SUCCESS, MOD_SCMI_CLOCK_EXECUTE_MESSAGE_HANDLER),
           (scmi_clock_init 2)\<lparr>tables := Some example_tables\<rparr>) \<and>
   policy_tables_of example_setup ((scmi_clock_init 2)\<lparr>tables := Some example_tables\<rparr>) =
     policy_tables_of example_setup (scmi_clock_init 2) \<and>
   clock_ops_update_state example_setup example_env 0 FWK_E_DEVICE example_disable_claimed =
     Some example_disable_claimed \<and>
   map_option (\<lambda>r. tables (snd r))
     (process_request_event example_setup example_failing_set_state_env
        \<lparr>event_id = SCMI_CLOCK_EVENT_IDX_SET_STATE, params_clock_dev_id = FWK_ID_ELEMENT 2 0,
         params_request_data = Set_State_Request_Data MOD_CLOCK_STATE_STOPPED\<rparr>
        example_disable_claimed) = Some (Some example_tables) \<and>
   map_option (\<lambda>r. tables (snd r))
     (process_response_event example_setup example_env
        \<lparr>source_id = FWK_ID_ELEMENT 2 0, response_id = MOD_CLOCK_EVENT_IDX_SET_STATE_REQUEST,
         params_status = FWK_E_DEVICE, params_value = No_Value\<rparr>
        example_disable_claimed) = Some (Some example_tables)"
proof -
  let ?ev = "\<lparr>event_id = SCMI_CLOCK_EVENT_IDX_SET_STATE,
              params_clock_dev_id = FWK_ID_ELEMENT 2 0,
              params_request_data = Set_State_Request_Data MOD_CLOCK_STATE_STOPPED\<rparr>"
  let ?resp = "\<lparr>source_id = FWK_ID_ELEMENT 2 0,
                response_id = MOD_CLOCK_EVENT_IDX_SET_STATE_REQUEST,
                params_status = FWK_E_DEVICE, params_value = No_Value\<rparr>"
  let ?freed = "example_disable_claimed
                  \<lparr>clock_ops := (clock_ops example_disable_claimed)
                     [0 := \<lparr>service_id = FWK_ID_NONE, state = MOD_CLOCK_STATE_STOPPED,
                            clock_dev_id = 0, request = SCMI_CLOCK_REQUEST_SET_STATE\<rparr>],
                   responses := [(FWK_ID_ELEMENT 1 0, Status_Only SCMI_GENERIC_ERROR)]\<rparr>"
  let ?seeded = "(scmi_clock_init 2)\<lparr>tables := Some example_tables\<rparr>"
  have pre: "mod_scmi_clock_config_set_policy example_setup example_env MOD_CLOCK_STATE_STOPPED
               MOD_SCMI_CLOCK_PRE_MESSAGE_HANDLER (FWK_ID_ELEMENT 1 0) 0 example_idle_state =
             Some ((FWK_SUCCESS, MOD_SCMI_CLOCK_EXECUTE_MESSAGE_HANDLER), example_idle_state)"
    by (simp add: mod_scmi_clock_config_set_policy_def policy_tables_of_def example_defs
          lookup_defs)
  have first: "mod_scmi_clock_config_set_policy example_setup example_env MOD_CLOCK_STATE_STOPPED
               MOD_SCMI_CLOCK_PRE_MESSAGE_HANDLER (FWK_ID_ELEMENT 1 0) 0 (scmi_clock_init 2) =
             Some ((FWK_SUCCESS, MOD_SCMI_CLOCK_EXECUTE_MESSAGE_HANDLER), ?seeded)"
    using example_tables_init
    by (simp add: mod_scmi_clock_config_set_policy_def policy_tables_of_def example_defs
          lookup_defs)
  have req: "process_request_event example_setup example_failing_set_state_env ?ev
               example_disable_claimed = Some (FWK_SUCCESS, ?freed)"
    by (simp add: example_disable_claimed_def example_defs lookup_defs event_defs
          example_failing_set_state_env_def)
  have rsp: "process_response_event example_setup example_env ?resp example_disable_claimed =
               Some (FWK_SUCCESS, ?freed)"
    by (simp add: example_disable_claimed_def example_defs lookup_defs event_defs)
  have fail: "set_state example_failing_set_state_env (params_clock_dev_id ?ev)
                MOD_CLOCK_STATE_STOPPED \<noteq> FWK_SUCCESS"
    by (simp add: example_failing_set_state_env_def)
  note T = pre_dispatch_leaves_tables
  have a: "policy_tables_of example_setup ?seeded =
             policy_tables_of example_setup (scmi_clock_init 2)"
    using T [where cf = example_setup and env = example_env
            and st = MOD_CLOCK_STATE_STOPPED and service = "FWK_ID_ELEMENT 1 0" and dev_id = 0
            and s = "scmi_clock_init 2"
            and r = "(FWK_SUCCESS, MOD_SCMI_CLOCK_EXECUTE_MESSAGE_HANDLER)"
            and s' = ?seeded, THEN conjunct1, rule_format, OF first, THEN conjunct1]
    by simp
  have b: "clock_ops_update_state example_setup example_env 0 FWK_E_DEVICE
             example_disable_claimed = Some example_disable_claimed"
    using T [where cf = example_setup and env = example_env and s = example_disable_claimed
            and status = FWK_E_DEVICE and clock_dev_idx = 0, THEN conjunct2, THEN conjunct1]
    by simp
  have c: "tables ?freed = tables example_disable_claimed"
    using T [where cf = example_setup and env = example_failing_set_state_env
            and st = MOD_CLOCK_STATE_STOPPED and s = example_disable_claimed
            and ev = ?ev and ra = FWK_SUCCESS and sa = ?freed,
            THEN conjunct2, THEN conjunct2, THEN conjunct1] fail req
    by simp
  have d: "tables ?freed = tables example_disable_claimed"
    using T [where cf = example_setup and env = example_env and s = example_disable_claimed
            and resp = ?resp and rb = FWK_SUCCESS and sb = ?freed,
            THEN conjunct2, THEN conjunct2, THEN conjunct2] rsp
    by simp
  from pre first a b c d req rsp show ?thesis
    by (simp add: example_disable_claimed_def)
qed

section \<open>Lookups and validation in the handlers\<close>

text \<open>
  Claim C4, as amended. For a ClockAttributes request of an agent that resolves, a clock
  identifier at or above the agent's device count makes the lookup return
  \<^verbatim>\<open>FWK_E_RANGE\<close>, and the handler answers NotFound; the state changes by that response
  only. The identifier \<open>device_count - 1\<close> is found.
\<close>

theorem attributes_clock_id_out_of_range:
  assumes "get_agent_entry cf env service = Inr agent"
  shows "(device_count agent \<le> unat (p 0) \<longrightarrow>
            get_clock_device_entry cf env service (unat (p 0)) = Inl FWK_E_RANGE \<and>
            scmi_clock_attributes_handler cf env service p s =
              Some (FWK_E_RANGE,
                    s\<lparr>responses := responses s @ [(service, Status_Only SCMI_NOT_FOUND)]\<rparr>)) \<and>
         (0 < device_count agent \<and> unat (p 0) = device_count agent - 1 \<longrightarrow>
            get_clock_device_entry cf env service (unat (p 0)) =
              Inr (device_table agent ! (device_count agent - 1), agent))"
  using assms
  by (auto simp: scmi_clock_attributes_handler_def get_clock_device_entry_def Let_def respond_def)

theorem attributes_clock_id_out_of_range_witness:
  "get_clock_device_entry example_setup example_env (FWK_ID_ELEMENT 1 0) 2 = Inl FWK_E_RANGE \<and>
   scmi_clock_attributes_handler example_setup example_env (FWK_ID_ELEMENT 1 0) (words [2])
     (scmi_clock_init 2) =
     Some (FWK_E_RANGE,
           (scmi_clock_init 2)\<lparr>responses := [(FWK_ID_ELEMENT 1 0, Status_Only SCMI_NOT_FOUND)]\<rparr>) \<and>
   get_clock_device_entry example_setup example_env (FWK_ID_ELEMENT 1 0) 1 =
     Inr (\<lparr>element_id = FWK_ID_ELEMENT 2 1, starts_enabled = False\<rparr>, example_agent0)"
proof -
  have a: "get_agent_entry example_setup example_env (FWK_ID_ELEMENT 1 0) = Inr example_agent0"
    by (simp add: get_agent_entry_def example_setup_def example_env_def agent_count_def)
  show ?thesis
    using attributes_clock_id_out_of_range [OF a, of "words [2]" "scmi_clock_init 2"]
          attributes_clock_id_out_of_range [OF a, of "words [1]" "scmi_clock_init 2"]
    by (simp add: words_def device_count_def example_agent0_def scmi_clock_init_def)
qed

text \<open>
  As stated, C4 has the response status OutOfRange. On the example platform agent 0 sees
  two clocks, and a request for clock 2 is answered NotFound.
\<close>

theorem attributes_out_of_range_counterexample:
  "scmi_clock_attributes_handler example_setup example_env (FWK_ID_ELEMENT 1 0) (words [2])
     (scmi_clock_init 2) =
     Some (FWK_E_RANGE,
           (scmi_clock_init 2)\<lparr>responses := [(FWK_ID_ELEMENT 1 0, Status_Only SCMI_NOT_FOUND)]\<rparr>) \<and>
   scmi_clock_attributes_handler example_setup example_env (FWK_ID_ELEMENT 1 0) (words [2])
     (scmi_clock_init 2) \<noteq>
     Some (FWK_E_RANGE,
           (scmi_clock_init 2)\<lparr>responses := [(FWK_ID_ELEMENT 1 0, Status_Only SCMI_OUT_OF_RANGE)]\<rparr>)"
  by (simp add: scmi_clock_attributes_handler_def get_clock_device_entry_def get_agent_entry_def
        example_setup_def example_env_def example_agent0_def agent_count_def device_count_def
        words_def respond_def scmi_clock_init_def)

text \<open>
  Claim C9. A ClockRateSet request whose flags have a bit outside the round-up, round-auto
  and asynchronous masks is answered InvalidParameters. The state changes by that response
  only: no event is queued and no slot is claimed.
\<close>

theorem rate_set_unknown_flags:
  assumes "p 0 AND NOT (SCMI_CLOCK_RATE_SET_ROUND_UP_MASK cf OR
             SCMI_CLOCK_RATE_SET_ROUND_AUTO_MASK cf OR SCMI_CLOCK_RATE_SET_ASYNC_MASK cf) \<noteq> 0"
  shows "scmi_clock_rate_set_handler cf env service p s =
           Some (FWK_SUCCESS,
                 s\<lparr>responses := responses s @ [(service, Status_Only SCMI_INVALID_PARAMETERS)]\<rparr>)"
  using assms
  by (simp add: scmi_clock_rate_set_handler_def SCMI_CLOCK_RATE_SET_FLAGS_MASK_def Let_def
        respond_def)

theorem rate_set_unknown_flags_witness:
  "scmi_clock_rate_set_handler example_setup example_env (FWK_ID_ELEMENT 1 0)
     (words [0x80000000, 0, 5, 0]) (scmi_clock_init 2) =
   Some (FWK_SUCCESS,
         (scmi_clock_init 2)\<lparr>responses := [(FWK_ID_ELEMENT 1 0, Status_Only SCMI_INVALID_PARAMETERS)]\<rparr>)"
  using rate_set_unknown_flags [of "words [0x80000000, 0, 5, 0]" example_setup example_env
          "FWK_ID_ELEMENT 1 0" "scmi_clock_init 2"]
  by (simp add: words_def example_setup_def scmi_clock_init_def)




section \<open>The dispatcher\<close>

text \<open>
  Claim C6. A message identifier outside the handler table is answered NotFound; inside
  the table, a payload size other than the one declared for the identifier is answered
  ProtocolError. In both cases the response is the status alone and the state changes by
  that response only. No handler runs: the outcome is the same whatever handlers the
  table holds.
\<close>

theorem dispatcher_rejects:
  "(handler_table_size \<le> message_id \<longrightarrow>
      scmi_clock_message_handler cf env service p payload_size message_id s =
        Some (FWK_SUCCESS, s\<lparr>responses := responses s @ [(service, Status_Only SCMI_NOT_FOUND)]\<rparr>)) \<and>
   (message_id < handler_table_size \<and> payload_size \<noteq> payload_size_table ! message_id \<longrightarrow>
      scmi_clock_message_handler cf env service p payload_size message_id s =
        Some (FWK_SUCCESS,
              s\<lparr>responses := responses s @ [(service, Status_Only SCMI_PROTOCOL_ERROR)]\<rparr>)) \<and>
   (length hs = handler_table_size \<and>
    (handler_table_size \<le> message_id \<or> payload_size \<noteq> payload_size_table ! message_id) \<longrightarrow>
      message_handler_with hs payload_size_table cf env service p payload_size message_id s =
        scmi_clock_message_handler cf env service p payload_size message_id s)"
  by (simp add: scmi_clock_message_handler_def message_handler_with_def handler_table_def
        handler_table_size_def respond_def)

theorem dispatcher_rejects_witness:
  "scmi_clock_message_handler example_setup example_env (FWK_ID_ELEMENT 1 0) (words [0]) 4 8
     (scmi_clock_init 2) =
     Some (FWK_SUCCESS,
           (scmi_clock_init 2)\<lparr>responses := [(FWK_ID_ELEMENT 1 0, Status_Only SCMI_NOT_FOUND)]\<rparr>) \<and>
   scmi_clock_message_handler example_setup example_env (FWK_ID_ELEMENT 1 0) (words [0]) 5 3
     (scmi_clock_init 2) =
     Some (FWK_SUCCESS,
           (scmi_clock_init 2)\<lparr>responses := [(FWK_ID_ELEMENT 1 0, Status_Only SCMI_PROTOCOL_ERROR)]\<rparr>) \<and>
   message_handler_with (replicate 8 (\<lambda>cf env service p s. None)) payload_size_table
     example_setup example_env (FWK_ID_ELEMENT 1 0) (words [0]) 5 3 (scmi_clock_init 2) =
     scmi_clock_message_handler example_setup example_env (FWK_ID_ELEMENT 1 0) (words [0]) 5 3
       (scmi_clock_init 2)"
  using dispatcher_rejects [of 8 example_setup example_env "FWK_ID_ELEMENT 1 0" "words [0]" 4
          "scmi_clock_init 2" "replicate 8 (\<lambda>cf env service p s. None)"]
        dispatcher_rejects [of 3 example_setup example_env "FWK_ID_ELEMENT 1 0" "words [0]" 5
          "scmi_clock_init 2" "replicate 8 (\<lambda>cf env service p s. None)"]
  by (simp add: handler_table_size_def payload_size_table_def scmi_clock_init_def)

end
